theory Spec2Isabelle
  imports Complex_Main "HOL-Library.Word"
begin

unbundle bit_operations_syntax

chapter \<open>Synergy Wholesale exporter: the SOAP codec, the cache and the collector\<close>

text \<open>
  The development follows the two Go packages of the repository:
  \<^item> \<^verbatim>\<open>synergywholesaleapi/main.go\<close>: the request envelope (\<open>createSOAPRequest\<close>,
    \<open>ListDomainsRequest.MarshalXML\<close>), the response decoder (\<open>UnmarshalSOAPResponse\<close>)
    and the date conversion (\<open>dateStringToTimestamp\<close>);
  \<^item> the root package (\<^verbatim>\<open>main.go\<close>): the cache (\<open>getDomains\<close> over the two package
    variables \<open>listDomainsResponse\<close> and \<open>cacheExpires\<close>) and the Prometheus collector
    (\<open>Describe\<close>, \<open>Collect\<close>).

  A Go \<open>string\<close> is a sequence of bytes and is modelled as \<^typ>\<open>string\<close>; \<open>int64\<close>
  (and \<open>int\<close>, 64 bits wide on the platforms the image is built for) is \<^typ>\<open>64 word\<close>,
  read as two's complement with \<^const>\<open>sint\<close>. A Go function returning \<open>(T, error)\<close>
  returns \<open>error + T\<close> here, \<open>Inl\<close> being the branch \<open>err != nil\<close>.
\<close>

type_synonym int64 = "64 word"

datatype error = Err string | Errorf string error

text \<open>
  \<open>orReturn r f\<close> is the Go idiom \<open>v, err := r; if err != nil { return err }\<close>
  followed by the rest \<open>f v\<close> of the function.
\<close>

definition orReturn :: "error + 'a \<Rightarrow> ('a \<Rightarrow> error + 'b) \<Rightarrow> error + 'b" where
  "orReturn r f = (case r of Inl err \<Rightarrow> Inl err | Inr v \<Rightarrow> f v)"

section \<open>Runes and escaping (\<open>unicode/utf8\<close>, \<open>encoding/xml\<close>)\<close>

definition RuneError :: nat where
  "RuneError = 0xFFFD"

definition byte :: "char \<Rightarrow> nat" where
  "byte c = of_char c"

text \<open>
  \<open>utf8.DecodeRuneInString\<close>: the first rune of the string and its width in bytes;
  \<open>(RuneError, 1)\<close> on a byte sequence that is not UTF-8, \<open>(RuneError, 0)\<close> on the
  empty string.
\<close>

fun DecodeRuneInString :: "string \<Rightarrow> nat \<times> nat" where
  "DecodeRuneInString [] = (RuneError, 0)"
| "DecodeRuneInString (c0 # s) =
     (let s0 = byte c0 in
      if s0 < 0x80 then (s0, 1)
      else if s0 < 0xC2 \<or> 0xF4 < s0 then (RuneError, 1)
      else
        let sz = (if s0 < 0xE0 then 2 else if s0 < 0xF0 then 3 else 4 :: nat);
            lo = (if s0 = 0xE0 then 0xA0 else if s0 = 0xF0 then 0x90 else 0x80);
            hi = (if s0 = 0xED then 0x9F else if s0 = 0xF4 then 0x8F else 0xBF)
        in if length (c0 # s) < sz then (RuneError, 1)
           else
             let s1 = byte (s ! 0) in
             if s1 < lo \<or> hi < s1 then (RuneError, 1)
             else if sz \<le> 2 then ((s0 mod 0x20) * 0x40 + s1 mod 0x40, 2)
             else
               let s2 = byte (s ! 1) in
               if s2 < 0x80 \<or> 0xBF < s2 then (RuneError, 1)
               else if sz \<le> 3
                 then ((s0 mod 0x10) * 0x1000 + (s1 mod 0x40) * 0x40 + s2 mod 0x40, 3)
               else
                 let s3 = byte (s ! 2) in
                 if s3 < 0x80 \<or> 0xBF < s3 then (RuneError, 1)
                 else ((s0 mod 0x08) * 0x40000 + (s1 mod 0x40) * 0x1000
                         + (s2 mod 0x40) * 0x40 + s3 mod 0x40, 4))"

definition isInCharacterRange :: "nat \<Rightarrow> bool" where
  "isInCharacterRange r \<longleftrightarrow>
     r = 0x09 \<or> r = 0x0A \<or> r = 0x0D \<or>
     0x20 \<le> r \<and> r \<le> 0xD7FF \<or>
     0xE000 \<le> r \<and> r \<le> 0xFFFD \<or>
     0x10000 \<le> r \<and> r \<le> 0x10FFFF"

text \<open>
  The replacement that \<open>printer.EscapeString\<close> writes for the rune \<open>r\<close> of width
  \<open>width\<close>, if any: the five markup characters, tab, newline and carriage return are
  written as references, a rune outside the XML character range or an undecodable byte as
  U+FFFD.
\<close>

definition escFFFD :: string where
  "escFFFD = [char_of (0xEF :: nat), char_of (0xBF :: nat), char_of (0xBD :: nat)]"

definition esc_of :: "nat \<Rightarrow> nat \<Rightarrow> string option" where
  "esc_of r width =
     (if r = byte (CHR ''\"'') then Some ''&#34;''
      else if r = byte (CHR 0x27) then Some ''&#39;''
      else if r = byte (CHR ''&'') then Some ''&amp;''
      else if r = byte (CHR ''<'') then Some ''&lt;''
      else if r = byte (CHR ''>'') then Some ''&gt;''
      else if r = 0x09 then Some ''&#x9;''
      else if r = 0x0A then Some ''&#xA;''
      else if r = 0x0D then Some ''&#xD;''
      else if \<not> isInCharacterRange r \<or> (r = RuneError \<and> width = 1) then Some escFFFD
      else None)"

lemma DecodeRuneInString_width: "s \<noteq> [] \<Longrightarrow> 0 < snd (DecodeRuneInString s)"
  by (cases s) (simp_all add: Let_def)

function EscapeString :: "string \<Rightarrow> string" where
  "EscapeString s =
     (if s = [] then []
      else
        let (r, width) = DecodeRuneInString s in
        (case esc_of r width of Some esc \<Rightarrow> esc | None \<Rightarrow> take width s)
          @ EscapeString (drop width s))"
  by pat_completeness auto
termination
proof (relation "measure length")
  show "wf (measure length)" by simp
next
  fix s :: string and x :: "nat \<times> nat" and r width :: nat
  assume "s \<noteq> []" and "x = DecodeRuneInString s" and "(r, width) = x"
  then have "0 < width"
    using DecodeRuneInString_width [of s] by (metis snd_conv)
  with \<open>s \<noteq> []\<close> show "(drop width s, s) \<in> measure length"
    by (cases s) simp_all
qed

declare EscapeString.simps [simp del]

section \<open>The request envelope\<close>

subsection \<open>XML names, tokens and the encoder's printer (\<open>encoding/xml\<close>)\<close>

record Name =
  Space :: string
  Local :: string

record Attr =
  Name :: Name
  Value :: string

record StartElement =
  Name :: Name
  Attr :: "Attr list"

definition name :: "string \<Rightarrow> Name" where
  "name l = \<lparr>Space = [], Local = l\<rparr>"

text \<open>
  The state of \<open>xml.Encoder\<close>: the bytes written so far, the indentation settings of
  \<open>Indent\<close>, and the stack of open tags, on which \<open>marshalInterface\<close> pushes the
  empty name as a mark below the tags a \<open>MarshalXML\<close> method opens.
\<close>

record printer =
  buf :: string
  prefix :: string
  indent :: string
  depth :: nat
  indentedIn :: bool
  putNewline :: bool
  tags :: "Name list"

definition WriteString :: "string \<Rightarrow> printer \<Rightarrow> printer" where
  "WriteString s p = p\<lparr>buf := buf p @ s\<rparr>"

text \<open>
  \<open>printer.writeIndent\<close>, split at its argument: \<open>writeIndent_in\<close> is the call
  \<open>writeIndent(1)\<close> before a start tag, \<open>writeIndent_out\<close> the call
  \<open>writeIndent(-1)\<close> before an end tag, which stays on the line of the start tag
  when nothing was indented in between.
\<close>

definition writeIndent_line :: "printer \<Rightarrow> printer" where
  "writeIndent_line p =
     (let p = (if putNewline p then WriteString ''\<newline>'' p else p\<lparr>putNewline := True\<rparr>);
          p = (if prefix p \<noteq> [] then WriteString (prefix p) p else p)
      in if indent p \<noteq> [] then WriteString (concat (replicate (depth p) (indent p))) p else p)"

definition writeIndent_in :: "printer \<Rightarrow> printer" where
  "writeIndent_in p =
     (if prefix p = [] \<and> indent p = [] then p
      else (let p = writeIndent_line p in p\<lparr>depth := depth p + 1, indentedIn := True\<rparr>))"

definition writeIndent_out :: "printer \<Rightarrow> printer" where
  "writeIndent_out p =
     (if prefix p = [] \<and> indent p = [] then p
      else
        let p = p\<lparr>depth := depth p - 1\<rparr> in
        if indentedIn p then p\<lparr>indentedIn := False\<rparr>
        else writeIndent_line (p\<lparr>indentedIn := False\<rparr>))"

fun writeAttrs :: "Attr list \<Rightarrow> printer \<Rightarrow> printer" where
  "writeAttrs [] p = p"
| "writeAttrs (a # as) p =
     (if Local (Attr.Name a) = [] then writeAttrs as p
      else writeAttrs as
        (WriteString (''\"'')
          (WriteString (EscapeString (Value a))
            (WriteString (''=\"'')
              (WriteString (Local (Attr.Name a)) (WriteString '' '' p))))))"

text \<open>
  \<open>printer.writeStart\<close>. Every attribute this program writes has an empty \<open>Space\<close>, and
  \<open>writeAttrs\<close> prints the \<open>Local\<close> part only: the prefix that the library invents for
  an attribute in a name space is not modelled.
\<close>

definition writeStart :: "StartElement \<Rightarrow> printer \<Rightarrow> error + printer" where
  "writeStart start p =
     (if Local (StartElement.Name start) = [] then Inl (Err ''xml: start tag with no name'')
      else
        let p = p\<lparr>tags := tags p @ [StartElement.Name start]\<rparr>;
            p = writeIndent_in p;
            p = WriteString (''<'' @ Local (StartElement.Name start)) p;
            p = (if Space (StartElement.Name start) \<noteq> []
                 then WriteString ('' xmlns=\"'' @ EscapeString (Space (StartElement.Name start)) @ ''\"'') p
                 else p);
            p = writeAttrs (Attr start) p
        in Inr (WriteString ''>'' p))"

definition writeEnd :: "Name \<Rightarrow> printer \<Rightarrow> error + printer" where
  "writeEnd nm p =
     (if Local nm = [] then Inl (Err ''xml: end tag with no name'')
      else if tags p = [] \<or> Local (last (tags p)) = []
        then Inl (Err (''xml: end tag </'' @ Local nm @ ''> without start tag''))
      else if last (tags p) \<noteq> nm
        then Inl (Err (''xml: end tag </'' @ Local nm @ ''> does not match start tag <''
                       @ Local (last (tags p)) @ ''>''))
      else
        let p = p\<lparr>tags := butlast (tags p)\<rparr>;
            p = writeIndent_out p
        in Inr (WriteString (''</'' @ Local nm @ ''>'') p))"

text \<open>The two kinds of token that \<open>MarshalXML\<close> hands to \<open>EncodeToken\<close>.\<close>

datatype Token = TStart StartElement | TEnd Name

definition End :: "StartElement \<Rightarrow> Name" where
  "End e = StartElement.Name e"

definition EncodeToken :: "Token \<Rightarrow> printer \<Rightarrow> error + printer" where
  "EncodeToken t p = (case t of TStart s \<Rightarrow> writeStart s p | TEnd n \<Rightarrow> writeEnd n p)"

text \<open>
  \<open>Encoder.EncodeElement\<close> on a value of the anonymous struct
  \<open>struct { Key string `xml:"key"`; Value string `xml:"value"` }\<close>: the start tag
  given, one element per field holding the escaped text, and the end tag.
\<close>

definition marshalString :: "string \<Rightarrow> string \<Rightarrow> printer \<Rightarrow> error + printer" where
  "marshalString tag s p =
     (case writeStart \<lparr>StartElement.Name = name tag, Attr = []\<rparr> p of
        Inl err \<Rightarrow> Inl err
      | Inr p \<Rightarrow> writeEnd (name tag) (WriteString (EscapeString s) p))"

definition EncodeElement :: "string \<times> string \<Rightarrow> StartElement \<Rightarrow> printer \<Rightarrow> error + printer" where
  "EncodeElement item start p =
     (case writeStart start p of
        Inl err \<Rightarrow> Inl err
      | Inr p \<Rightarrow>
          (case marshalString ''key'' (fst item) p of
             Inl err \<Rightarrow> Inl err
           | Inr p \<Rightarrow>
               (case marshalString ''value'' (snd item) p of
                  Inl err \<Rightarrow> Inl err
                | Inr p \<Rightarrow> writeEnd (StartElement.Name start) p)))"

subsection \<open>\<open>ListDomainsRequest.MarshalXML\<close> and \<open>createSOAPRequest\<close>\<close>

record ListDomainsRequest =
  ApiKey :: string
  ResellerID :: string

record 'a apiSOAPBody =
  Content :: 'a

record 'a apiSOAPEnvelope =
  XMLName :: Name
  Xmlns :: string
  Xmlns1 :: string
  Xmlns2 :: string
  Body :: "'a apiSOAPBody"

text \<open>The loop \<open>for _, item := range items\<close> of \<open>MarshalXML\<close>.\<close>

fun EncodeItems :: "(string \<times> string) list \<Rightarrow> printer \<Rightarrow> error + printer" where
  "EncodeItems [] e = Inr e"
| "EncodeItems (item # items) e =
     (case EncodeElement item \<lparr>StartElement.Name = name ''item'', Attr = []\<rparr> e of
        Inl err \<Rightarrow> Inl err
      | Inr e \<Rightarrow> EncodeItems items e)"

text \<open>
  \<open>MarshalXML\<close>. The result of the first \<open>e.EncodeToken(start)\<close> is not looked at by the
  source; a failing \<open>writeStart\<close> has written nothing, so the encoder goes on unchanged.
\<close>

definition MarshalXML :: "ListDomainsRequest \<Rightarrow> StartElement \<Rightarrow> printer \<Rightarrow> error + printer" where
  "MarshalXML r start0 e =
     (let start = start0\<lparr>Name := (StartElement.Name start0)\<lparr>Local := ''ns1:listDomains''\<rparr>\<rparr>;
          e = (case EncodeToken (TStart start) e of Inl _ \<Rightarrow> e | Inr e' \<Rightarrow> e');
          paramStart = \<lparr>StartElement.Name = name ''param'',
                        Attr = [\<lparr>Attr.Name = name ''xsi:type'', Value = ''ns2:Map''\<rparr>]\<rparr>
      in case EncodeToken (TStart paramStart) e of
           Inl err \<Rightarrow> Inl err
         | Inr e \<Rightarrow>
             (let items = [(''apiKey'', ApiKey r), (''resellerID'', ResellerID r)]
              in case EncodeItems items e of
                   Inl err \<Rightarrow> Inl err
                 | Inr e \<Rightarrow>
                     (case EncodeToken (TEnd (End paramStart)) e of
                        Inl err \<Rightarrow> Inl err
                      | Inr e \<Rightarrow> EncodeToken (TEnd (End start)) e)))"

text \<open>
  \<open>printer.marshalInterface\<close>: the mark is pushed, the method runs on a start element
  named after the struct field (\<open>Content\<close>), and every tag the method opened must be
  closed again.
\<close>

definition marshalInterface :: "ListDomainsRequest \<Rightarrow> StartElement \<Rightarrow> printer \<Rightarrow> error + printer" where
  "marshalInterface val start p =
     (let p = p\<lparr>tags := tags p @ [name []]\<rparr>;
          n = length (tags p)
      in case MarshalXML val start p of
           Inl err \<Rightarrow> Inl err
         | Inr p \<Rightarrow>
             if length (tags p) > n
             then Inl (Err ''xml: MarshalXML wrote invalid XML: tag not closed'')
             else Inr (p\<lparr>tags := take (n - 1) (tags p)\<rparr>))"

text \<open>
  \<open>xml.MarshalIndent\<close> on an \<open>apiSOAPEnvelope\<close>, following the struct tags: the element
  \<open>Envelope\<close> (from \<open>XMLName\<close>) with the three \<open>attr\<close> fields in the order of their
  declaration, the element \<open>Body\<close>, the marshaller of its content, and \<open>Close\<close>, which
  refuses an unclosed tag.
\<close>

definition marshalEnvelope :: "ListDomainsRequest apiSOAPEnvelope \<Rightarrow> printer \<Rightarrow> error + printer" where
  "marshalEnvelope v p =
     (let start = \<lparr>StartElement.Name = name ''Envelope'',
                   Attr = [\<lparr>Attr.Name = name ''xmlns:SOAP-ENV'', Value = Xmlns v\<rparr>,
                           \<lparr>Attr.Name = name ''xmlns:ns1'', Value = Xmlns1 v\<rparr>,
                           \<lparr>Attr.Name = name ''xmlns:ns2'', Value = Xmlns2 v\<rparr>]\<rparr>
      in case writeStart start p of
           Inl err \<Rightarrow> Inl err
         | Inr p \<Rightarrow>
             (case writeStart \<lparr>StartElement.Name = name ''Body'', Attr = []\<rparr> p of
                Inl err \<Rightarrow> Inl err
              | Inr p \<Rightarrow>
                  (case marshalInterface (Content (Body v)) \<lparr>StartElement.Name = name ''Content'', Attr = []\<rparr> p of
                     Inl err \<Rightarrow> Inl err
                   | Inr p \<Rightarrow>
                       (case writeEnd (name ''Body'') p of
                          Inl err \<Rightarrow> Inl err
                        | Inr p \<Rightarrow> writeEnd (name ''Envelope'') p))))"

definition MarshalIndent :: "ListDomainsRequest apiSOAPEnvelope \<Rightarrow> string \<Rightarrow> string \<Rightarrow> error + string" where
  "MarshalIndent v pre ind =
     (let enc = \<lparr>buf = [], prefix = pre, indent = ind, depth = 0, indentedIn = False,
                  putNewline = False, tags = []\<rparr>
      in case marshalEnvelope v enc of
           Inl err \<Rightarrow> Inl err
         | Inr enc \<Rightarrow>
             if tags enc \<noteq> [] then Inl (Err ''unclosed tag'') else Inr (buf enc))"

definition xml_Header :: string where
  "xml_Header = ''<?xml version=\"1.0\" encoding=\"UTF-8\"?>'' @ ''\<newline>''"

definition createSOAPRequest :: "ListDomainsRequest \<Rightarrow> error + string" where
  "createSOAPRequest request =
     (let envelope = \<lparr>apiSOAPEnvelope.XMLName = name [],
                      Xmlns = ''http://schemas.xmlsoap.org/soap/envelope/'',
                      Xmlns1 = ''http://api.synergywholesale.com'',
                      Xmlns2 = ''http://xml.apache.org/xml-soap'',
                      Body = \<lparr>Content = request\<rparr>\<rparr>
      in case MarshalIndent envelope [] ''  '' of
           Inl err \<Rightarrow> Inl err
         | Inr xmlBytes \<Rightarrow> Inr (xml_Header @ xmlBytes))"

section \<open>The response decoder\<close>

subsection \<open>The response structs\<close>

record DomainInfo =
  Status :: string
  ErrorMessage :: string
  DomainName :: string
  DomainStatus :: string
  DomainCreated :: string
  DomainExpiry :: string
  CreatedDate :: string
  TransferStatus :: string
  AutoRenew :: int64
  NameServers :: "string list"
  DNSSECKeys :: "string list"

record SOAPResponseCommon =
  Status :: string
  ErrorMessage :: string

text \<open>\<open>DomainList\<close> embeds \<open>SOAPResponseCommon\<close>: its two fields are fields of \<open>DomainList\<close>.\<close>

record DomainList = SOAPResponseCommon +
  DomainList :: "DomainInfo list"

record ListDomainsResponse =
  XMLName :: Name
  Return :: DomainList

text \<open>The zero values \<open>DomainInfo{}\<close> and \<open>ListDomainsResponse{}\<close>.\<close>

definition zero_DomainInfo :: DomainInfo where
  "zero_DomainInfo =
     \<lparr>DomainInfo.Status = [], ErrorMessage = [], DomainName = [], DomainStatus = [],
      DomainCreated = [], DomainExpiry = [], CreatedDate = [], TransferStatus = [],
      AutoRenew = 0, NameServers = [], DNSSECKeys = []\<rparr>"

definition zero_ListDomainsResponse :: ListDomainsResponse where
  "zero_ListDomainsResponse =
     \<lparr>XMLName = name [],
      Return = \<lparr>SOAPResponseCommon.Status = [], ErrorMessage = [], DomainList = []\<rparr>\<rparr>"

subsection \<open>Trimming and integer conversion (\<open>strings\<close>, \<open>strconv\<close>, \<open>unicode\<close>)\<close>

definition IsSpace :: "nat \<Rightarrow> bool" where
  "IsSpace r \<longleftrightarrow>
     0x09 \<le> r \<and> r \<le> 0x0D \<or> r = 0x20 \<or> r = 0x85 \<or> r = 0xA0 \<or> r = 0x1680 \<or>
     0x2000 \<le> r \<and> r \<le> 0x200A \<or> r = 0x2028 \<or> r = 0x2029 \<or> r = 0x202F \<or>
     r = 0x205F \<or> r = 0x3000"

definition RuneStart :: "char \<Rightarrow> bool" where
  "RuneStart b \<longleftrightarrow> \<not> (0x80 \<le> byte b \<and> byte b < 0xC0)"

text \<open>
  \<open>utf8.DecodeLastRuneInString\<close>: the last rune and its width. \<open>lastRuneStart\<close> is
  the loop that walks back from the last byte, over at most three more bytes, to the first
  byte that can start a rune; it ends one below the limit when there is none.
\<close>

definition lastRuneStart :: "string \<Rightarrow> nat" where
  "lastRuneStart s =
     (let end = length s; lim = end - 4
      in case filter (\<lambda>i. RuneStart (s ! i)) (rev [lim ..< end - 1]) of
           [] \<Rightarrow> lim - 1
         | i # _ \<Rightarrow> i)"

definition DecodeLastRuneInString :: "string \<Rightarrow> nat \<times> nat" where
  "DecodeLastRuneInString s =
     (let end = length s in
      if end = 0 then (RuneError, 0)
      else
        let r = byte (s ! (end - 1)) in
        if r < 0x80 then (r, 1)
        else
          let start = lastRuneStart s;
              (r, size) = DecodeRuneInString (drop start s)
          in if start + size \<noteq> end then (RuneError, 1) else (r, size))"

lemma lastRuneStart_less: "s \<noteq> [] \<Longrightarrow> lastRuneStart s < length s"
proof (cases "filter (\<lambda>i. RuneStart (s ! i)) (rev [length s - 4 ..< length s - 1])")
  case Nil
  assume "s \<noteq> []"
  with Nil show ?thesis by (simp add: lastRuneStart_def)
next
  case (Cons i js)
  then have "i \<in> set (filter (\<lambda>i. RuneStart (s ! i)) (rev [length s - 4 ..< length s - 1]))"
    by simp
  then have "i < length s - 1" by simp
  with Cons show ?thesis by (simp add: lastRuneStart_def)
qed

lemma DecodeLastRuneInString_width: "s \<noteq> [] \<Longrightarrow> 0 < snd (DecodeLastRuneInString s)"
proof -
  assume "s \<noteq> []"
  then have "drop (lastRuneStart s) s \<noteq> []"
    using lastRuneStart_less [of s] by simp
  then have "0 < snd (DecodeRuneInString (drop (lastRuneStart s) s))"
    by (rule DecodeRuneInString_width)
  then show ?thesis
    using \<open>s \<noteq> []\<close>
    by (auto simp: DecodeLastRuneInString_def Let_def split: prod.splits)
qed

function TrimLeft :: "string \<Rightarrow> string" where
  "TrimLeft s =
     (if s = [] then []
      else
        let (r, width) = DecodeRuneInString s in
        if IsSpace r then TrimLeft (drop width s) else s)"
  by pat_completeness auto
termination
proof (relation "measure length")
  show "wf (measure length)" by simp
next
  fix s :: string and x :: "nat \<times> nat" and r width :: nat
  assume "s \<noteq> []" and "x = DecodeRuneInString s" and "(r, width) = x"
  then have "0 < width"
    using DecodeRuneInString_width [of s] by (metis snd_conv)
  with \<open>s \<noteq> []\<close> show "(drop width s, s) \<in> measure length"
    by (cases s) simp_all
qed

declare TrimLeft.simps [simp del]

function TrimRight :: "string \<Rightarrow> string" where
  "TrimRight s =
     (if s = [] then []
      else
        let (r, width) = DecodeLastRuneInString s in
        if IsSpace r then TrimRight (take (length s - width) s) else s)"
  by pat_completeness auto
termination
proof (relation "measure length")
  show "wf (measure length)" by simp
next
  fix s :: string and x :: "nat \<times> nat" and r width :: nat
  assume "s \<noteq> []" and "x = DecodeLastRuneInString s" and "(r, width) = x"
  then have "0 < width"
    using DecodeLastRuneInString_width [of s] by (metis snd_conv)
  with \<open>s \<noteq> []\<close> show "(take (length s - width) s, s) \<in> measure length"
    by (cases s) simp_all
qed

declare TrimRight.simps [simp del]

text \<open>
  \<open>strings.TrimSpace\<close>. The source runs over ASCII bytes first and falls back to the
  rune-wise \<open>TrimFunc\<close> at the first byte that is not ASCII; an ASCII byte is a rune of
  width 1, so both paths trim the white space runes at the two ends.
\<close>

definition TrimSpace :: "string \<Rightarrow> string" where
  "TrimSpace s = TrimRight (TrimLeft s)"

definition isDigitChar :: "char \<Rightarrow> bool" where
  "isDigitChar c \<longleftrightarrow> byte (CHR ''0'') \<le> byte c \<and> byte c \<le> byte (CHR ''9'')"

definition digitVal :: "char \<Rightarrow> int" where
  "digitVal c = int (byte c) - int (byte (CHR ''0''))"

text \<open>The value of a string of decimal digits.\<close>

definition decimal :: "string \<Rightarrow> int" where
  "decimal ds = foldl (\<lambda>n c. 10 * n + digitVal c) 0 ds"

text \<open>
  \<open>strconv.ParseInt(s, 10, 64)\<close>: an optional sign and at least one decimal digit,
  nothing else, and a value that fits \<open>int64\<close>.
\<close>

definition ParseInt :: "string \<Rightarrow> error + int64" where
  "ParseInt s =
     (if s = [] then Inl (Err ''strconv.ParseInt: invalid syntax'')
      else
        let neg = (hd s = CHR ''-'');
            ds = (if hd s = CHR ''+'' \<or> hd s = CHR ''-'' then tl s else s)
        in if ds = [] \<or> \<not> list_all isDigitChar ds
           then Inl (Err ''strconv.ParseInt: invalid syntax'')
           else
             let un = decimal ds in
             if \<not> neg \<and> un \<ge> 2 ^ 63 \<or> neg \<and> un > 2 ^ 63
             then Inl (Err ''strconv.ParseInt: value out of range'')
             else Inr (if neg then - word_of_int un else word_of_int un))"

text \<open>\<open>copyValue\<close> into a field of kind \<open>int\<close>: no text at all is the value 0.\<close>

definition copyValue_int :: "string \<Rightarrow> error + int64" where
  "copyValue_int src = (if src = [] then Inr 0 else ParseInt (TrimSpace src))"

subsection \<open>The reader's tokens and the element tree\<close>

text \<open>
  The body of a reply is given as \<open>Decoder.Token\<close> returns it, call by call: a token, or
  the error at which the reader stops (a syntax error, a tag closed by another name, an
  encoding it cannot read). Running off the end of the list is \<open>io.EOF\<close>. \<open>Token\<close> itself
  sees to it that the start and end elements it returns are nested and matched, and has
  resolved each prefix to its name space.
\<close>

datatype Tok =
  StartTok StartElement
| EndTok Name
| CharData string
| Comment string
| ProcInst string string
| Directive string

type_synonym body = "(error + Tok) list"

definition io_EOF :: error where
  "io_EOF = Err ''EOF''"

text \<open>
  \<open>unmarshal\<close> reads up to a start element (\<open>findStart\<close>) and maps that element to the
  struct while it reads on to the end element that closes it; when the mapping fails the
  call returns at once and no further token is asked for. The tokens of the element are
  arranged here as a tree, which the mapping goes through in the order of the tokens.
  Where \<open>Token\<close> returns an error instead of a token the tree has the node \<open>Failed\<close>
  with that error, and nothing after it: the elements still open end there. So the mapping
  meets the reader's error exactly where \<open>unmarshal\<close> would have asked for that token, and
  not at all when it has failed before.

  \<open>readElement s ch st\<close> reads on inside the open element \<open>s\<close>, whose children so far
  are \<open>ch\<close> (last first), below the open elements \<open>st\<close>.
\<close>

datatype Node = Element StartElement "Node list" | Text string | Failed error

fun findStart :: "body \<Rightarrow> error + StartElement \<times> body" where
  "findStart [] = Inl io_EOF"
| "findStart (Inl err # ts) = Inl err"
| "findStart (Inr (StartTok s) # ts) = Inr (s, ts)"
| "findStart (Inr _ # ts) = findStart ts"

fun closeAll :: "Node \<Rightarrow> (StartElement \<times> Node list) list \<Rightarrow> Node" where
  "closeAll e [] = e"
| "closeAll e ((s, ch) # st) = closeAll (Element s (rev (e # ch))) st"

fun readElement :: "StartElement \<Rightarrow> Node list \<Rightarrow> (StartElement \<times> Node list) list \<Rightarrow> body \<Rightarrow> Node" where
  "readElement s ch st [] = closeAll (Element s (rev (Failed io_EOF # ch))) st"
| "readElement s ch st (Inl err # ts) = closeAll (Element s (rev (Failed err # ch))) st"
| "readElement s ch st (Inr (StartTok s') # ts) = readElement s' [] ((s, ch) # st) ts"
| "readElement s ch st (Inr (EndTok n) # ts) =
     (case st of
        [] \<Rightarrow> Element s (rev ch)
      | (s', ch') # st' \<Rightarrow> readElement s' (Element s (rev ch) # ch') st' ts)"
| "readElement s ch st (Inr (CharData d) # ts) = readElement s (Text d # ch) st ts"
| "readElement s ch st (Inr _ # ts) = readElement s ch st ts"

subsection \<open>Mapping the tree to the structs, by their tags\<close>

fun localName :: "Node \<Rightarrow> string" where
  "localName (Element s ch) = Local (StartElement.Name s)"
| "localName (Text d) = []"
| "localName (Failed err) = []"

fun children :: "Node \<Rightarrow> Node list" where
  "children (Element s ch) = ch"
| "children (Text d) = []"
| "children (Failed err) = []"

fun isElement :: "Node \<Rightarrow> bool" where
  "isElement (Element s ch) = True"
| "isElement (Text d) = False"
| "isElement (Failed err) = False"

text \<open>
  \<open>Decoder.Skip\<close> reads on to the end of the element that was last opened, whatever is
  inside, and returns the reader's error if there is one on the way: \<open>failure c\<close> is that
  error, the first one in the order of the tokens.
\<close>

fun firstError :: "error option list \<Rightarrow> error option" where
  "firstError [] = None"
| "firstError (None # es) = firstError es"
| "firstError (Some err # es) = Some err"

primrec failure :: "Node \<Rightarrow> error option" where
  "failure (Element s ch) = firstError (map failure ch)"
| "failure (Text d) = None"
| "failure (Failed err) = Some err"

definition Skip :: "Node \<Rightarrow> 'a \<Rightarrow> error + 'a" where
  "Skip c v = (case failure c of Some err \<Rightarrow> Inl err | None \<Rightarrow> Inr v)"

text \<open>
  The loop of \<open>unmarshal\<close> for a field of kind \<open>string\<close> or \<open>int\<close>: it collects the
  character data directly inside the element and skips the elements inside.
\<close>

fun chardata :: "Node list \<Rightarrow> error + string" where
  "chardata [] = Inr []"
| "chardata (Text d # ns) =
     (case chardata ns of Inl err \<Rightarrow> Inl err | Inr data \<Rightarrow> Inr (d @ data))"
| "chardata (Element s ch # ns) =
     (case failure (Element s ch) of Some err \<Rightarrow> Inl err | None \<Rightarrow> chardata ns)"
| "chardata (Failed err # ns) = Inl err"

text \<open>
  The loop of \<open>unmarshal\<close> and of \<open>unmarshalPath\<close> over what is inside an element of
  kind \<open>struct\<close>, or on a path to a field: each element is handed to \<open>f\<close>, character
  data is passed over, and the loop ends at the first error, of \<open>f\<close> or of the reader.
\<close>

fun forChildren :: "(Node \<Rightarrow> 'a \<Rightarrow> error + 'a) \<Rightarrow> Node list \<Rightarrow> 'a \<Rightarrow> error + 'a" where
  "forChildren f [] v = Inr v"
| "forChildren f (Element s ch # cs) v =
     (case f (Element s ch) v of Inl err \<Rightarrow> Inl err | Inr v' \<Rightarrow> forChildren f cs v')"
| "forChildren f (Text d # cs) v = forChildren f cs v"
| "forChildren f (Failed err # cs) v = Inl err"

text \<open>
  An element at the end of the path of a field of kind \<open>[]string\<close>: the slice grows by
  the character data of the element.
\<close>

definition appendString :: "Node \<Rightarrow> string list \<Rightarrow> error + string list" where
  "appendString c v = orReturn (chardata (children c)) (\<lambda>data. Inr (v @ [data]))"

text \<open>
  The paths \<open>nameServers>item\<close> and \<open>DSData>item>UUID\<close>: what \<open>unmarshalPath\<close> does
  with an element inside \<open>nameServers\<close>, inside an \<open>item\<close> of \<open>DSData\<close>, and inside
  \<open>DSData\<close>. An element off the path is skipped.
\<close>

definition unmarshalPath_nameServers :: "Node \<Rightarrow> string list \<Rightarrow> error + string list" where
  "unmarshalPath_nameServers c v =
     (if localName c = ''item'' then appendString c v else Skip c v)"

definition unmarshalPath_DSData_item :: "Node \<Rightarrow> string list \<Rightarrow> error + string list" where
  "unmarshalPath_DSData_item c v =
     (if localName c = ''UUID'' then appendString c v else Skip c v)"

definition unmarshalPath_DSData :: "Node \<Rightarrow> string list \<Rightarrow> error + string list" where
  "unmarshalPath_DSData c v =
     (if localName c = ''item'' then forChildren unmarshalPath_DSData_item (children c) v
      else Skip c v)"

text \<open>
  One child of an \<open>item\<close> of the domain list, against the tags of \<open>DomainInfo\<close>. A field
  of kind \<open>string\<close> takes the character data of the child, \<open>autoRenew\<close> its integer value,
  and the two slices grow by the elements at the end of their paths. A child of any other
  name is skipped.
\<close>

definition unmarshalPath_DomainInfo :: "Node \<Rightarrow> DomainInfo \<Rightarrow> error + DomainInfo" where
  "unmarshalPath_DomainInfo c v =
     (let n = localName c; ch = children c in
      if n = ''status'' then
        orReturn (chardata ch) (\<lambda>data. Inr (v\<lparr>DomainInfo.Status := data\<rparr>))
      else if n = ''errorMessage'' then
        orReturn (chardata ch) (\<lambda>data. Inr (v\<lparr>DomainInfo.ErrorMessage := data\<rparr>))
      else if n = ''domainName'' then
        orReturn (chardata ch) (\<lambda>data. Inr (v\<lparr>DomainName := data\<rparr>))
      else if n = ''domain_status'' then
        orReturn (chardata ch) (\<lambda>data. Inr (v\<lparr>DomainStatus := data\<rparr>))
      else if n = ''domain_created'' then
        orReturn (chardata ch) (\<lambda>data. Inr (v\<lparr>DomainCreated := data\<rparr>))
      else if n = ''domain_expiry'' then
        orReturn (chardata ch) (\<lambda>data. Inr (v\<lparr>DomainExpiry := data\<rparr>))
      else if n = ''createdDate'' then
        orReturn (chardata ch) (\<lambda>data. Inr (v\<lparr>CreatedDate := data\<rparr>))
      else if n = ''transfer_status'' then
        orReturn (chardata ch) (\<lambda>data. Inr (v\<lparr>TransferStatus := data\<rparr>))
      else if n = ''autoRenew'' then
        orReturn (chardata ch) (\<lambda>data.
        orReturn (copyValue_int data) (\<lambda>i. Inr (v\<lparr>AutoRenew := i\<rparr>)))
      else if n = ''nameServers'' then
        orReturn (forChildren unmarshalPath_nameServers ch (NameServers v))
          (\<lambda>servers. Inr (v\<lparr>NameServers := servers\<rparr>))
      else if n = ''DSData'' then
        orReturn (forChildren unmarshalPath_DSData ch (DNSSECKeys v))
          (\<lambda>keys. Inr (v\<lparr>DNSSECKeys := keys\<rparr>))
      else Skip c v)"

definition unmarshal_DomainInfo :: "Node \<Rightarrow> error + DomainInfo" where
  "unmarshal_DomainInfo item = forChildren unmarshalPath_DomainInfo (children item) zero_DomainInfo"

text \<open>
  The path \<open>domainList>item\<close>: the slice \<open>DomainList\<close> grows by one \<open>DomainInfo\<close> per
  \<open>item\<close> inside a \<open>domainList\<close>.
\<close>

definition appendDomainInfo :: "Node \<Rightarrow> DomainInfo list \<Rightarrow> error + DomainInfo list" where
  "appendDomainInfo item ds =
     (case unmarshal_DomainInfo item of Inl err \<Rightarrow> Inl err | Inr d \<Rightarrow> Inr (ds @ [d]))"

definition unmarshalPath_domainList :: "Node \<Rightarrow> DomainInfo list \<Rightarrow> error + DomainInfo list" where
  "unmarshalPath_domainList c v =
     (if localName c = ''item'' then appendDomainInfo c v else Skip c v)"

definition unmarshalPath_DomainList :: "Node \<Rightarrow> DomainList \<Rightarrow> error + DomainList" where
  "unmarshalPath_DomainList c v =
     (let n = localName c; ch = children c in
      if n = ''status'' then
        orReturn (chardata ch) (\<lambda>data. Inr (v\<lparr>SOAPResponseCommon.Status := data\<rparr>))
      else if n = ''errorMessage'' then
        orReturn (chardata ch) (\<lambda>data. Inr (v\<lparr>SOAPResponseCommon.ErrorMessage := data\<rparr>))
      else if n = ''domainList'' then
        orReturn (forChildren unmarshalPath_domainList ch (DomainList v))
          (\<lambda>ds. Inr (v\<lparr>DomainList := ds\<rparr>))
      else Skip c v)"

text \<open>
  \<open>ListDomainsResponse\<close>: the element must be named as the tag of \<open>XMLName\<close> says, or
  the mapping fails before anything inside is read; its name is stored, and each child
  \<open>return\<close> is mapped to the field \<open>Return\<close>.
\<close>

definition unmarshalPath_ListDomainsResponse :: "Node \<Rightarrow> ListDomainsResponse \<Rightarrow> error + ListDomainsResponse" where
  "unmarshalPath_ListDomainsResponse c v =
     (if localName c = ''return'' then
        orReturn (forChildren unmarshalPath_DomainList (children c) (Return v))
          (\<lambda>r. Inr (v\<lparr>Return := r\<rparr>))
      else Skip c v)"

fun unmarshal_ListDomainsResponse :: "Node \<Rightarrow> ListDomainsResponse \<Rightarrow> error + ListDomainsResponse" where
  "unmarshal_ListDomainsResponse (Element s ch) v =
     (if Local (StartElement.Name s) \<noteq> ''listDomainsResponse''
      then Inl (Err (''expected element type <listDomainsResponse> but have <''
                      @ Local (StartElement.Name s) @ ''>''))
      else forChildren unmarshalPath_ListDomainsResponse ch (v\<lparr>XMLName := StartElement.Name s\<rparr>))"
| "unmarshal_ListDomainsResponse (Text d) v = Inr v"
| "unmarshal_ListDomainsResponse (Failed err) v = Inl err"

text \<open>
  \<open>apiSOAPBody\<close> has the one field \<open>Content\<close>, tagged \<open>,any\<close>: every child element of
  \<open>Body\<close>, whatever its name, is mapped to the value that \<open>Content\<close> points to.
\<close>

definition unmarshalPath_Body :: "Node \<Rightarrow> ListDomainsResponse apiSOAPBody \<Rightarrow> error + ListDomainsResponse apiSOAPBody" where
  "unmarshalPath_Body c v =
     orReturn (unmarshal_ListDomainsResponse c (Content v)) (\<lambda>r. Inr (v\<lparr>Content := r\<rparr>))"

text \<open>
  \<open>apiSOAPEnvelope\<close>: the element must be named \<open>Envelope\<close>, or the mapping fails before
  anything inside is read; its name is stored in \<open>XMLName\<close>. No attribute of the element
  has the local name of an \<open>attr\<close> field (\<open>xmlns:SOAP-ENV\<close> and the like, colon included),
  so the three strings stay as they are. Each child \<open>Body\<close> is mapped to the field
  \<open>Body\<close>; other children are skipped.
\<close>

definition unmarshalPath_Envelope :: "Node \<Rightarrow> ListDomainsResponse apiSOAPEnvelope \<Rightarrow> error + ListDomainsResponse apiSOAPEnvelope" where
  "unmarshalPath_Envelope c v =
     (if localName c = ''Body'' then
        orReturn (forChildren unmarshalPath_Body (children c) (Body v))
          (\<lambda>b. Inr (v\<lparr>Body := b\<rparr>))
      else Skip c v)"

fun unmarshal_Envelope :: "Node \<Rightarrow> ListDomainsResponse apiSOAPEnvelope \<Rightarrow> error + ListDomainsResponse apiSOAPEnvelope" where
  "unmarshal_Envelope (Element s ch) v =
     (if Local (StartElement.Name s) \<noteq> ''Envelope''
      then Inl (Err (''expected element type <Envelope> but have <''
                      @ Local (StartElement.Name s) @ ''>''))
      else forChildren unmarshalPath_Envelope ch (v\<lparr>apiSOAPEnvelope.XMLName := StartElement.Name s\<rparr>))"
| "unmarshal_Envelope (Text d) v = Inr v"
| "unmarshal_Envelope (Failed err) v = Inl err"

text \<open>\<open>Decoder.Decode\<close> into an \<open>apiSOAPEnvelope\<close>.\<close>

definition Decode :: "body \<Rightarrow> ListDomainsResponse apiSOAPEnvelope \<Rightarrow> error + ListDomainsResponse apiSOAPEnvelope" where
  "Decode data v =
     (case findStart data of
        Inl err \<Rightarrow> Inl err
      | Inr (s, ts) \<Rightarrow> unmarshal_Envelope (readElement s [] [] ts) v)"

text \<open>
  \<open>UnmarshalSOAPResponse\<close>. The source fills the struct that \<open>response\<close> points to; the
  model returns the filled struct.
\<close>

definition UnmarshalSOAPResponse :: "body \<Rightarrow> ListDomainsResponse \<Rightarrow> error + ListDomainsResponse" where
  "UnmarshalSOAPResponse data response =
     (let envelope = \<lparr>apiSOAPEnvelope.XMLName = name [], Xmlns = [], Xmlns1 = [], Xmlns2 = [],
                      Body = \<lparr>Content = response\<rparr>\<rparr>
      in case Decode data envelope of
           Inl err \<Rightarrow> Inl (Errorf ''failed to unmarshal SOAP response: '' err)
         | Inr envelope \<Rightarrow> Inr (Content (Body envelope)))"

section \<open>Dates (\<open>dateStringToTimestamp\<close> and the parts of \<open>time\<close> it calls)\<close>

definition isDigit :: "string \<Rightarrow> nat \<Rightarrow> bool" where
  "isDigit s i \<longleftrightarrow> i < length s \<and> isDigitChar (s ! i)"

definition errBad :: error where
  "errBad = Err ''bad value for field''"

text \<open>
  \<open>getnum\<close> reads one or two digits (two when \<open>fixed\<close>) and returns their value and the
  rest of the string.
\<close>

definition getnum :: "string \<Rightarrow> bool \<Rightarrow> error + int \<times> string" where
  "getnum s fixed =
     (if \<not> isDigit s 0 then Inl errBad
      else if \<not> isDigit s 1 then
        (if fixed then Inl errBad else Inr (digitVal (s ! 0), drop 1 s))
      else Inr (digitVal (s ! 0) * 10 + digitVal (s ! 1), drop 2 s))"

definition cutspace :: "string \<Rightarrow> string" where
  "cutspace s = dropWhile (\<lambda>c. c = CHR '' '') s"

text \<open>
  \<open>skip\<close> removes the literal text \<open>prefix\<close> of the layout from the value; a space of
  the layout stands for any run of spaces of the value.
\<close>

function skip :: "string \<Rightarrow> string \<Rightarrow> error + string" where
  "skip val pre =
     (if pre = [] then Inr val
      else if hd pre = CHR '' '' then
        (if val \<noteq> [] \<and> hd val \<noteq> CHR '' '' then Inl errBad
         else skip (cutspace val) (cutspace pre))
      else if val = [] \<or> hd val \<noteq> hd pre then Inl errBad
      else skip (tl val) (tl pre))"
  by pat_completeness auto
termination
proof (relation "measure (\<lambda>(val, pre). length pre)")
  show "wf (measure (\<lambda>(val, pre). length pre))" by simp
next
  fix val pre :: string
  assume "pre \<noteq> []" and "hd pre = CHR '' ''"
  then have "length (cutspace pre) < length pre"
    by (cases pre) (simp_all add: cutspace_def le_imp_less_Suc length_dropWhile_le)
  then show "((cutspace val, cutspace pre), (val, pre)) \<in> measure (\<lambda>(val, pre). length pre)"
    by simp
next
  fix val pre :: string
  assume "pre \<noteq> []"
  then show "((tl val, tl pre), (val, pre)) \<in> measure (\<lambda>(val, pre). length pre)"
    by (cases pre) simp_all
qed

declare skip.simps [simp del]

definition isLeap :: "int \<Rightarrow> bool" where
  "isLeap year \<longleftrightarrow> year mod 4 = 0 \<and> (year mod 100 \<noteq> 0 \<or> year mod 400 = 0)"

definition daysBefore :: "int list" where
  "daysBefore = [0, 31, 59, 90, 120, 151, 181, 212, 243, 273, 304, 334, 365]"

definition daysIn :: "int \<Rightarrow> int \<Rightarrow> int" where
  "daysIn m year =
     (if m = 2 \<and> isLeap year then 29
      else daysBefore ! nat m - daysBefore ! nat (m - 1))"

text \<open>A location with one zone, \<open>zoneOffset\<close> seconds east of UTC at every instant.\<close>

record Location =
  zoneName :: string
  zoneOffset :: int

text \<open>
  Modelled from the spec: the zone table that \<open>time.LoadLocation\<close> reads for
  \<open>Australia/Brisbane\<close> is not part of the repository (the image is built with the time
  zone data compiled into the binary, so that the call succeeds). The spec gives the zone as
  UTC+10 with no daylight saving.
\<close>

definition LoadLocation :: "string \<Rightarrow> error + Location" where
  "LoadLocation n =
     (if n = ''Australia/Brisbane'' then Inr \<lparr>zoneName = n, zoneOffset = 10 * 60 * 60\<rparr>
      else Inl (Err (''unknown time zone '' @ n)))"

text \<open>
  The leap years before the year \<open>y\<close>, counted from the year 1 (negative below it), and
  the days from 1 January 1970 to 1 January of the year \<open>y\<close>.
\<close>

definition leapsBefore :: "int \<Rightarrow> int" where
  "leapsBefore y = (y - 1) div 4 - (y - 1) div 100 + (y - 1) div 400"

definition daysSinceEpoch :: "int \<Rightarrow> int" where
  "daysSinceEpoch y = 365 * (y - 1970) + (leapsBefore y - leapsBefore 1970)"

text \<open>
  \<open>time.Date(year, month, day, hour, min, sec, nsec, loc).UTC().Unix()\<close> for a date
  whose fields are in range, as \<open>Parse\<close> has checked: the seconds from the epoch to that
  wall clock time, less the offset of the zone.
\<close>

definition Date_Unix :: "int \<Rightarrow> int \<Rightarrow> int \<Rightarrow> int \<Rightarrow> int \<Rightarrow> int \<Rightarrow> Location \<Rightarrow> int64" where
  "Date_Unix year m day hour minute sec loc =
     (let d = daysSinceEpoch year + daysBefore ! nat (m - 1)
              + (if isLeap year \<and> m \<ge> 3 then 1 else 0) + (day - 1);
          abs = d * 86400 + hour * 3600 + minute * 60 + sec
      in word_of_int (abs - zoneOffset loc))"

definition commaOrPeriod :: "char \<Rightarrow> bool" where
  "commaOrPeriod c \<longleftrightarrow> c = CHR ''.'' \<or> c = CHR '',''"

text \<open>
  The seconds of the layout may be followed in the value by a fraction the layout does not
  have: a period or comma and digits, all of which are taken.
\<close>

definition skipFraction :: "string \<Rightarrow> string" where
  "skipFraction val =
     (if length val \<ge> 2 \<and> commaOrPeriod (val ! 0) \<and> isDigit val 1
      then dropWhile isDigitChar (drop 2 val)
      else val)"

text \<open>
  \<open>time.ParseInLocation\<close> for the layout \<open>"2006-01-02 15:04:05"\<close>, chunk by chunk as
  \<open>nextStdChunk\<close> cuts the layout: a year of four digits, month and day of two, an hour of
  one or two, minute and second of two, each after its literal prefix; then nothing may be
  left of the value, and the day must exist in its month. The result is the Unix time of
  the instant, which is all the caller takes from it.
\<close>

definition ParseInLocation :: "string \<Rightarrow> Location \<Rightarrow> error + int64" where
  "ParseInLocation val loc =
     (if length val < 4 \<or> \<not> isDigit val 0 \<or> \<not> list_all isDigitChar (take 4 val)
      then Inl errBad
      else
        let year = decimal (take 4 val) in
        orReturn (skip (drop 4 val) ''-'') (\<lambda>val.
        orReturn (getnum val True) (\<lambda>(m, val).
        if m \<le> 0 \<or> 12 < m then Inl (Err ''month out of range'') else
        orReturn (skip val ''-'') (\<lambda>val.
        orReturn (getnum val True) (\<lambda>(day, val).
        orReturn (skip val '' '') (\<lambda>val.
        orReturn (getnum val False) (\<lambda>(hour, val).
        if hour < 0 \<or> 24 \<le> hour then Inl (Err ''hour out of range'') else
        orReturn (skip val '':'') (\<lambda>val.
        orReturn (getnum val True) (\<lambda>(minute, val).
        if minute < 0 \<or> 60 \<le> minute then Inl (Err ''minute out of range'') else
        orReturn (skip val '':'') (\<lambda>val.
        orReturn (getnum val True) (\<lambda>(sec, val).
        if sec < 0 \<or> 60 \<le> sec then Inl (Err ''second out of range'') else
        let val = skipFraction val in
        if val \<noteq> [] then Inl (Err ''extra text'')
        else if day < 1 \<or> day > daysIn m year then Inl (Err ''day out of range'')
        else Inr (Date_Unix year m day hour minute sec loc))))))))))))"

definition dateStringToTimestamp :: "string \<Rightarrow> int64" where
  "dateStringToTimestamp dateString =
     (if dateString = [] then 0
      else
        case LoadLocation ''Australia/Brisbane'' of
          Inl err \<Rightarrow> 0
        | Inr location \<Rightarrow>
            (case ParseInLocation dateString location of
               Inl err \<Rightarrow> 0
             | Inr utcTime \<Rightarrow> utcTime))"

definition GetDomainExpiryTimestamp :: "DomainInfo \<Rightarrow> int64" where
  "GetDomainExpiryTimestamp domainInfo = dateStringToTimestamp (DomainExpiry domainInfo)"

definition GetDomainCreationTimestamp :: "DomainInfo \<Rightarrow> int64" where
  "GetDomainCreationTimestamp domainInfo = dateStringToTimestamp (DomainCreated domainInfo)"

section \<open>The client and the cache (\<open>SendSOAPRequest\<close>, \<open>getDomains\<close>)\<close>

text \<open>
  The flags the cache reads (\<open>*apiKey\<close>, \<open>*resellerID\<close>, \<open>*cacheTTLSeconds\<close>) and the two
  package variables it reads and writes. The variables start as the zero values of their
  types.
\<close>

record Flags =
  resellerID :: string
  apiKey :: string
  cacheTTLSeconds :: int64

record Cache =
  listDomainsResponse :: ListDomainsResponse
  cacheExpires :: int64

definition initCache :: Cache where
  "initCache = \<lparr>listDomainsResponse = zero_ListDomainsResponse, cacheExpires = 0\<rparr>"

text \<open>
  \<open>SendSOAPRequest\<close>. The exchange with the server (\<open>client.Do\<close>, then \<open>io.ReadAll\<close> of
  the body) is the parameter \<open>upstream\<close>: for the bytes posted, the body of the reply or
  the error of the transport. A reply of any status code is a body. Beside its result the
  function returns the requests it has posted: none when the envelope could not be built,
  else the one.
\<close>

definition SendSOAPRequest :: "(string \<Rightarrow> error + body) \<Rightarrow> ListDomainsRequest \<Rightarrow> (error + body) \<times> string list" where
  "SendSOAPRequest upstream param =
     (case createSOAPRequest param of
        Inl err \<Rightarrow> (Inl err, [])
      | Inr soapRequest \<Rightarrow> (upstream soapRequest, [soapRequest]))"

text \<open>The request that \<open>getDomains\<close> builds from the flags.\<close>

definition listDomainsRequest :: "Flags \<Rightarrow> ListDomainsRequest" where
  "listDomainsRequest fl = \<lparr>ApiKey = apiKey fl, ResellerID = resellerID fl\<rparr>"

text \<open>
  \<open>getDomains\<close>. The clock is read twice, before the test of freshness (\<open>now\<close>) and, after
  the exchange, when the expiry is set (\<open>now'\<close>). The result is the response returned, the
  two variables after the call, and the requests posted during it.
\<close>

definition getDomains :: "Flags \<Rightarrow> (string \<Rightarrow> error + body) \<Rightarrow> int64 \<Rightarrow> int64 \<Rightarrow> Cache \<Rightarrow> ListDomainsResponse \<times> Cache \<times> string list" where
  "getDomains fl upstream now now' c =
     (if now <s cacheExpires c then (listDomainsResponse c, c, [])
      else
        let request = listDomainsRequest fl;
            (r, posted) = SendSOAPRequest upstream request
        in case r of
             Inl err \<Rightarrow> (zero_ListDomainsResponse, c, posted)
           | Inr data \<Rightarrow>
               (case UnmarshalSOAPResponse data zero_ListDomainsResponse of
                  Inl err2 \<Rightarrow> (zero_ListDomainsResponse, c, posted)
                | Inr response \<Rightarrow>
                    (response,
                     \<lparr>listDomainsResponse = response,
                      cacheExpires = now' + cacheTTLSeconds fl\<rparr>,
                     posted)))"

section \<open>The collector (\<open>Describe\<close>, \<open>Collect\<close>)\<close>

subsection \<open>Descriptors and constant metrics (\<open>prometheus\<close>)\<close>

record Desc =
  fqName :: string
  helpText :: string
  variableLabels :: "string list"

datatype ValueType = CounterValue | GaugeValue | UntypedValue

text \<open>
  The conversion \<open>float64(n)\<close> of a 64-bit integer: the nearest number with 53
  significant bits, the even one of two equally near. Every such number is an integer,
  and the value of the \<open>float64\<close> is kept as a real number. \<open>e\<close> is the number of low
  bits that do not fit: the length of \<open>\<bar>n\<bar>\<close> in bits, less 53.
\<close>

definition float64 :: "int64 \<Rightarrow> real" where
  "float64 x =
     (let n = sint x; a = \<bar>n\<bar>;
          e = length (filter (\<lambda>k. 2 ^ k \<le> a) [53 ..< 64]);
          q = a div 2 ^ e; r = a mod 2 ^ e;
          q = (if 2 * r > 2 ^ e \<or> (2 * r = 2 ^ e \<and> odd q) then q + 1 else q)
      in real_of_int (sgn n * q * 2 ^ e))"

record Metric =
  desc :: Desc
  valType :: ValueType
  val :: real
  labelValues :: "string list"

text \<open>
  \<open>prometheus.MustNewConstMetric\<close> panics when the number of label values is not the
  number of variable labels of the descriptor; the panic is the \<open>Inl\<close> branch. (It also
  refuses a label value that is not UTF-8. The label values of this program are character
  data of the reply, which the XML reader has already checked to be UTF-8; that check is
  not modelled.)
\<close>

definition MustNewConstMetric :: "Desc \<Rightarrow> ValueType \<Rightarrow> real \<Rightarrow> string list \<Rightarrow> error + Metric" where
  "MustNewConstMetric d vt v lvs =
     (if length lvs \<noteq> length (variableLabels d)
      then Inl (Err ''inconsistent label cardinality'')
      else Inr \<lparr>desc = d, valType = vt, val = v, labelValues = lvs\<rparr>)"

subsection \<open>The collector of the exporter\<close>

record Collector =
  domainAutoRenew :: Desc
  domainExpiry :: Desc
  domainNameServer :: Desc
  domainDNSSECKeyCount :: Desc

definition newCollector :: Collector where
  "newCollector =
     \<lparr>domainAutoRenew =
        \<lparr>fqName = ''domain_auto_renew_enable'', helpText = ''Domain auto-renewal status'',
         variableLabels = [''domain'']\<rparr>,
      domainExpiry =
        \<lparr>fqName = ''domain_expiry_timestamp_seconds'',
         helpText = ''Domain expiry timestamp in seconds'',
         variableLabels = [''domain'', ''status'']\<rparr>,
      domainNameServer =
        \<lparr>fqName = ''domain_name_server_info'', helpText = ''Domain name server info'',
         variableLabels = [''domain'', ''name_server_info'']\<rparr>,
      domainDNSSECKeyCount =
        \<lparr>fqName = ''domain_dnssec_key_count'', helpText = ''Number of DNSSEC keys per domain'',
         variableLabels = [''domain'']\<rparr>\<rparr>"

text \<open>
  A channel is the list of what has been sent on it, oldest first; \<open>ch <- x\<close> appends.
\<close>

definition Describe :: "Collector \<Rightarrow> Desc list \<Rightarrow> Desc list" where
  "Describe collector ch =
     ch @ [domainAutoRenew collector] @ [domainExpiry collector] @ [domainNameServer collector]"

text \<open>The inner loop of \<open>Collect\<close>, over the name servers of one domain.\<close>

fun collectNameServers :: "Collector \<Rightarrow> DomainInfo \<Rightarrow> string list \<Rightarrow> Metric list \<Rightarrow> error + Metric list" where
  "collectNameServers collector domain [] ch = Inr ch"
| "collectNameServers collector domain (server # servers) ch =
     orReturn (MustNewConstMetric (domainNameServer collector) GaugeValue (float64 1)
                 [DomainName domain, server])
       (\<lambda>m. collectNameServers collector domain servers (ch @ [m]))"

text \<open>The body of the outer loop: one domain of the list.\<close>

definition collectDomain :: "Collector \<Rightarrow> DomainInfo \<Rightarrow> Metric list \<Rightarrow> error + Metric list" where
  "collectDomain collector domain ch =
     (if DomainInfo.Status domain \<noteq> ''OK'' then Inr ch
      else
        orReturn (MustNewConstMetric (domainAutoRenew collector) GaugeValue
                    (float64 (AutoRenew domain)) [DomainName domain])
          (\<lambda>m1.
        orReturn (MustNewConstMetric (domainDNSSECKeyCount collector) GaugeValue
                    (float64 (word_of_nat (length (DNSSECKeys domain)))) [DomainName domain])
          (\<lambda>m2.
        orReturn (MustNewConstMetric (domainExpiry collector) GaugeValue
                    (float64 (GetDomainExpiryTimestamp domain))
                    [DomainName domain, DomainStatus domain])
          (\<lambda>m3. collectNameServers collector domain (NameServers domain)
                   (ch @ [m1] @ [m2] @ [m3])))))"

fun collectDomains :: "Collector \<Rightarrow> DomainInfo list \<Rightarrow> Metric list \<Rightarrow> error + Metric list" where
  "collectDomains collector [] ch = Inr ch"
| "collectDomains collector (domain # domains) ch =
     orReturn (collectDomain collector domain ch) (collectDomains collector domains)"

text \<open>
  \<open>Collect\<close>: the response of the cache, then the loop over its domains. Beside the channel
  the model returns what \<open>getDomains\<close> has done to the cache and posted.
\<close>

definition Collect :: "Collector \<Rightarrow> Flags \<Rightarrow> (string \<Rightarrow> error + body) \<Rightarrow> int64 \<Rightarrow> int64 \<Rightarrow> Cache \<Rightarrow> Metric list \<Rightarrow> (error + Metric list) \<times> Cache \<times> string list" where
  "Collect collector fl upstream now now' c ch =
     (let (listDomainsResp, c', posted) = getDomains fl upstream now now' c
      in (collectDomains collector (DomainList (Return listDomainsResp)) ch, c', posted))"

section \<open>Auxiliary notions for the proofs\<close>

text \<open>A byte that \<open>EscapeString\<close> copies: printable ASCII other than the five markup characters.\<close>

definition plain :: "char \<Rightarrow> bool" where
  "plain c \<longleftrightarrow> 0x20 \<le> byte c \<and> byte c < 0x80 \<and> byte c \<notin> {0x22, 0x26, 0x27, 0x3C, 0x3E}"

text \<open>
  The encoder as \<open>MarshalIndent(envelope, "", "  ")\<close> sets it up, once the first line has
  been written.
\<close>

definition indented :: "string \<Rightarrow> nat \<Rightarrow> bool \<Rightarrow> Name list \<Rightarrow> printer" where
  "indented b d i ts =
     \<lparr>buf = b, prefix = [], indent = ''  '', depth = d, indentedIn = i, putNewline = True, tags = ts\<rparr>"

text \<open>What \<open>writeAttrs\<close> appends to the buffer.\<close>

definition attrsText :: "Attr list \<Rightarrow> string" where
  "attrsText as =
     concat (map (\<lambda>a. if Local (Attr.Name a) = [] then []
                       else '' '' @ Local (Attr.Name a) @ ''=\"'' @ EscapeString (Value a) @ ''\"'') as)"

text \<open>The bytes that \<open>getDomains\<close> posts for the given flags.\<close>

definition requestBytes :: "Flags \<Rightarrow> string" where
  "requestBytes fl =
     (case createSOAPRequest (listDomainsRequest fl) of Inl err \<Rightarrow> [] | Inr soapRequest \<Rightarrow> soapRequest)"

subsection \<open>Sample data\<close>

text \<open>
  A reply of the server, as tokens: one domain in good standing with two name servers and
  one DNSSEC key, and one domain the registrar reports an error for.
\<close>

definition startTag :: "string \<Rightarrow> error + Tok" where
  "startTag n = Inr (StartTok \<lparr>StartElement.Name = name n, Attr = []\<rparr>)"

definition endTag :: "string \<Rightarrow> error + Tok" where
  "endTag n = Inr (EndTok (name n))"

definition leaf :: "string \<Rightarrow> string \<Rightarrow> body" where
  "leaf n s = [startTag n, Inr (CharData s), endTag n]"

definition sampleReply :: body where
  "sampleReply =
     [Inr (ProcInst ''xml'' ''version=\"1.0\" encoding=\"UTF-8\"''),
      startTag ''Envelope'', startTag ''Body'', startTag ''listDomainsResponse'',
      startTag ''return'']
     @ leaf ''status'' ''OK''
     @ [startTag ''domainList'',
        startTag ''item'']
     @ leaf ''status'' ''OK''
     @ leaf ''domainName'' ''example.com''
     @ leaf ''domain_status'' ''ok''
     @ leaf ''domain_expiry'' ''2025-12-25 10:00:00''
     @ leaf ''autoRenew'' ''1''
     @ [startTag ''nameServers'']
     @ leaf ''item'' ''ns1.example.com'' @ leaf ''item'' ''ns2.example.com''
     @ [endTag ''nameServers'',
        startTag ''DSData'', startTag ''item'']
     @ leaf ''UUID'' ''key-1''
     @ [endTag ''item'', endTag ''DSData'',
        endTag ''item'',
        startTag ''item'']
     @ leaf ''status'' ''ERR_DOMAIN_NOT_FOUND''
     @ leaf ''domainName'' ''gone.example''
     @ [endTag ''item'',
        endTag ''domainList'', endTag ''return'', endTag ''listDomainsResponse'', endTag ''Body'',
        endTag ''Envelope'']"

definition exampleDomain :: DomainInfo where
  "exampleDomain =
     \<lparr>DomainInfo.Status = ''OK'', ErrorMessage = [], DomainName = ''example.com'',
      DomainStatus = ''ok'', DomainCreated = [], DomainExpiry = ''2025-12-25 10:00:00'',
      CreatedDate = [], TransferStatus = [], AutoRenew = 1,
      NameServers = [''ns1.example.com'', ''ns2.example.com''], DNSSECKeys = [''key-1'']\<rparr>"

definition goneDomain :: DomainInfo where
  "goneDomain =
     \<lparr>DomainInfo.Status = ''ERR_DOMAIN_NOT_FOUND'', ErrorMessage = [],
      DomainName = ''gone.example'', DomainStatus = [], DomainCreated = [], DomainExpiry = [],
      CreatedDate = [], TransferStatus = [], AutoRenew = 0, NameServers = [], DNSSECKeys = []\<rparr>"

definition sampleResponse :: ListDomainsResponse where
  "sampleResponse =
     \<lparr>XMLName = name ''listDomainsResponse'',
      Return = \<lparr>SOAPResponseCommon.Status = ''OK'', ErrorMessage = [],
                DomainList = [exampleDomain, goneDomain]\<rparr>\<rparr>"

text \<open>A server that answers with the sample, and one that cannot be reached.\<close>

definition upstreamSample :: "string \<Rightarrow> error + body" where
  "upstreamSample soapRequest = Inr sampleReply"

definition upstreamDown :: "string \<Rightarrow> error + body" where
  "upstreamDown soapRequest = Inl (Err ''dial tcp: connection refused'')"

definition upstreamGarbled :: "string \<Rightarrow> error + body" where
  "upstreamGarbled soapRequest = Inr [startTag ''html'', Inl (Err ''XML syntax error'')]"

definition sampleFlags :: Flags where
  "sampleFlags = \<lparr>resellerID = ''123'', apiKey = ''abc'', cacheTTLSeconds = 3600\<rparr>"

text \<open>What \<open>Collect\<close> sends for one domain of the list.\<close>

definition domainSamples :: "DomainInfo \<Rightarrow> Metric list" where
  "domainSamples d =
     (if DomainInfo.Status d \<noteq> ''OK'' then []
      else [\<lparr>desc = domainAutoRenew newCollector, valType = GaugeValue,
              val = float64 (AutoRenew d), labelValues = [DomainName d]\<rparr>,
            \<lparr>desc = domainDNSSECKeyCount newCollector, valType = GaugeValue,
              val = float64 (word_of_nat (length (DNSSECKeys d))),
              labelValues = [DomainName d]\<rparr>,
            \<lparr>desc = domainExpiry newCollector, valType = GaugeValue,
              val = float64 (dateStringToTimestamp (DomainExpiry d)),
              labelValues = [DomainName d, DomainStatus d]\<rparr>]
           @ map (\<lambda>server. \<lparr>desc = domainNameServer newCollector, valType = GaugeValue,
                               val = 1, labelValues = [DomainName d, server]\<rparr>)
               (NameServers d))"

text \<open>
  The first element of a reply, as far as the reader delivers it: the tree that \<open>Decode\<close>
  maps to the envelope.
\<close>

definition readRoot :: "body \<Rightarrow> error + Node" where
  "readRoot data = orReturn (findStart data) (\<lambda>(s, ts). Inr (readElement s [] [] ts))"

text \<open>The child elements of the given name.\<close>

definition named :: "string \<Rightarrow> Node list \<Rightarrow> Node list" where
  "named n ns = filter (\<lambda>c. isElement c \<and> localName c = n) ns"

chapter \<open>Properties\<close>

section \<open>The request envelope\<close>

lemma EscapeString_Nil: "EscapeString [] = []"
  by (simp add: EscapeString.simps)

lemma EscapeString_ascii:
  "byte c < 0x80 \<Longrightarrow>
   EscapeString (c # s) = (case esc_of (byte c) 1 of Some esc \<Rightarrow> esc | None \<Rightarrow> [c]) @ EscapeString s"
  by (subst EscapeString.simps) (simp add: Let_def split: option.splits)

lemma esc_of_plain: "plain c \<Longrightarrow> esc_of (byte c) w = None"
  by (simp add: plain_def esc_of_def isInCharacterRange_def RuneError_def) (simp add: byte_def)

lemma EscapeString_plain: "\<forall>c \<in> set s. plain c \<Longrightarrow> EscapeString s = s"
proof (induction s)
  case Nil
  show ?case by (simp add: EscapeString_Nil)
next
  case (Cons c s)
  then have "plain c" by simp
  then have "byte c < 0x80" by (simp add: plain_def)
  then show ?case using Cons \<open>plain c\<close> by (simp add: EscapeString_ascii esc_of_plain)
qed

lemma EscapeString_consts:
  "EscapeString ''http://schemas.xmlsoap.org/soap/envelope/'' = ''http://schemas.xmlsoap.org/soap/envelope/''"
  "EscapeString ''http://api.synergywholesale.com'' = ''http://api.synergywholesale.com''"
  "EscapeString ''http://xml.apache.org/xml-soap'' = ''http://xml.apache.org/xml-soap''"
  "EscapeString ''ns2:Map'' = ''ns2:Map''"
  by (rule EscapeString_plain, simp add: plain_def byte_def)+



lemma name_simps [simp]:
  "Local (name l) = l" "Space (name l) = []" "(name l)\<lparr>Local := l'\<rparr> = name l'"
  by (simp_all add: name_def)

lemma writeAttrs_buf: "writeAttrs as p = p\<lparr>buf := buf p @ attrsText as\<rparr>"
  by (induction as arbitrary: p) (simp_all add: attrsText_def WriteString_def)

lemma writeStart_indented:
  assumes "Local (StartElement.Name s) \<noteq> []" and "Space (StartElement.Name s) = []"
  shows "writeStart s (indented b d i ts) =
           Inr (indented (b @ ''\<newline>'' @ concat (replicate d ''  '') @ ''<'' @ Local (StartElement.Name s)
                            @ attrsText (Attr s) @ ''>'')
                  (Suc d) True (ts @ [StartElement.Name s]))"
  using assms
  by (simp add: writeStart_def indented_def writeIndent_in_def writeIndent_line_def
      WriteString_def writeAttrs_buf Let_def)

lemma writeEnd_same_line:
  assumes "Local nm \<noteq> []" and "ts \<noteq> []" and "last ts = nm"
  shows "writeEnd nm (indented b (Suc d) True ts) =
           Inr (indented (b @ ''</'' @ Local nm @ ''>'') d False (butlast ts))"
  using assms
  by (auto simp: writeEnd_def indented_def writeIndent_out_def WriteString_def Let_def)

lemma writeEnd_new_line:
  assumes "Local nm \<noteq> []" and "ts \<noteq> []" and "last ts = nm"
  shows "writeEnd nm (indented b (Suc d) False ts) =
           Inr (indented (b @ ''\<newline>'' @ concat (replicate d ''  '') @ ''</'' @ Local nm @ ''>'')
                  d False (butlast ts))"
  using assms
  by (auto simp: writeEnd_def indented_def writeIndent_out_def writeIndent_line_def
      WriteString_def Let_def)

lemma marshalString_indented:
  assumes "tag \<noteq> []"
  shows "marshalString tag s (indented b d i ts) =
           Inr (indented (b @ ''\<newline>'' @ concat (replicate d ''  '') @ ''<'' @ tag @ ''>''
                            @ EscapeString s @ ''</'' @ tag @ ''>'') d False ts)"
proof -
  have "writeStart \<lparr>StartElement.Name = name tag, Attr = []\<rparr> (indented b d i ts) =
          Inr (indented (b @ ''\<newline>'' @ concat (replicate d ''  '') @ ''<'' @ tag @ ''>'')
                 (Suc d) True (ts @ [name tag]))"
    using assms by (simp add: writeStart_indented attrsText_def)
  moreover have "WriteString (EscapeString s) (indented b' d' i' ts') =
      indented (b' @ EscapeString s) d' i' ts'" for b' d' i' ts'
    by (simp add: WriteString_def indented_def)
  ultimately show ?thesis
    using assms by (simp add: marshalString_def writeEnd_same_line)
qed

lemma EncodeElement_indented:
  "EncodeElement item \<lparr>StartElement.Name = name ''item'', Attr = []\<rparr> (indented b d i ts) =
     Inr (indented
            (b @ ''\<newline>'' @ concat (replicate d ''  '') @ ''<item>''
               @ ''\<newline>'' @ concat (replicate (Suc d) ''  '') @ ''<key>'' @ EscapeString (fst item) @ ''</key>''
               @ ''\<newline>'' @ concat (replicate (Suc d) ''  '') @ ''<value>'' @ EscapeString (snd item) @ ''</value>''
               @ ''\<newline>'' @ concat (replicate d ''  '') @ ''</item>'')
            d False ts)"
  by (simp add: EncodeElement_def writeStart_indented marshalString_indented attrsText_def
      writeEnd_new_line)


lemma MarshalXML_indented:
  "MarshalXML r \<lparr>StartElement.Name = name ''Content'', Attr = []\<rparr> (indented b d i ts) =
     Inr (indented
            (b @ ''\<newline>'' @ concat (replicate d ''  '') @ ''<ns1:listDomains>''
               @ ''\<newline>'' @ concat (replicate (Suc d) ''  '') @ ''<param xsi:type=\"ns2:Map\">''
               @ ''\<newline>'' @ concat (replicate (Suc (Suc d)) ''  '') @ ''<item>''
               @ ''\<newline>'' @ concat (replicate (Suc (Suc (Suc d))) ''  '') @ ''<key>apiKey</key>''
               @ ''\<newline>'' @ concat (replicate (Suc (Suc (Suc d))) ''  '')
                    @ ''<value>'' @ EscapeString (ApiKey r) @ ''</value>''
               @ ''\<newline>'' @ concat (replicate (Suc (Suc d)) ''  '') @ ''</item>''
               @ ''\<newline>'' @ concat (replicate (Suc (Suc d)) ''  '') @ ''<item>''
               @ ''\<newline>'' @ concat (replicate (Suc (Suc (Suc d))) ''  '') @ ''<key>resellerID</key>''
               @ ''\<newline>'' @ concat (replicate (Suc (Suc (Suc d))) ''  '')
                    @ ''<value>'' @ EscapeString (ResellerID r) @ ''</value>''
               @ ''\<newline>'' @ concat (replicate (Suc (Suc d)) ''  '') @ ''</item>''
               @ ''\<newline>'' @ concat (replicate (Suc d) ''  '') @ ''</param>''
               @ ''\<newline>'' @ concat (replicate d ''  '') @ ''</ns1:listDomains>'')
            d False ts)"
proof -
  have key: "EscapeString ''apiKey'' = ''apiKey''" "EscapeString ''resellerID'' = ''resellerID''"
    by (rule EscapeString_plain, simp add: plain_def byte_def)+
  show ?thesis
    by (simp add: MarshalXML_def EncodeToken_def End_def writeStart_indented EncodeElement_indented
        attrsText_def EscapeString_consts key writeEnd_new_line butlast_append)
qed

lemma marshalInterface_indented:
  "marshalInterface r \<lparr>StartElement.Name = name ''Content'', Attr = []\<rparr> (indented b d i ts) =
     orReturn (MarshalXML r \<lparr>StartElement.Name = name ''Content'', Attr = []\<rparr> (indented b d i (ts @ [name []])))
       (\<lambda>p. Inr (p\<lparr>tags := ts\<rparr>))"
  apply (simp add: marshalInterface_def Let_def orReturn_def indented_def)
  apply (simp add: MarshalXML_indented [unfolded indented_def])
  done


lemma writeStart_Envelope:
  "writeStart \<lparr>StartElement.Name = name ''Envelope'', Attr = as\<rparr>
     \<lparr>buf = [], prefix = [], indent = ''  '', depth = 0, indentedIn = False,
      putNewline = False, tags = []\<rparr> =
   Inr (indented (''<Envelope'' @ attrsText as @ ''>'') (Suc 0) True [name ''Envelope''])"
  by (simp add: writeStart_def indented_def writeIndent_in_def writeIndent_line_def
      WriteString_def writeAttrs_buf Let_def)

lemma indented_tags: "(indented b d i ts)\<lparr>tags := ts'\<rparr> = indented b d i ts'"
  by (simp add: indented_def)

lemma indented_sel: "tags (indented b d i ts) = ts" "buf (indented b d i ts) = b"
  by (simp_all add: indented_def)

lemma createSOAPRequest_bytes:
  "createSOAPRequest r =
     Inr (''<?xml version=\"1.0\" encoding=\"UTF-8\"?>'' @ ''\<newline>''
       @ ''<Envelope xmlns:SOAP-ENV=\"http://schemas.xmlsoap.org/soap/envelope/\"''
       @ '' xmlns:ns1=\"http://api.synergywholesale.com\"''
       @ '' xmlns:ns2=\"http://xml.apache.org/xml-soap\">'' @ ''\<newline>''
       @ ''  <Body>'' @ ''\<newline>''
       @ ''    <ns1:listDomains>'' @ ''\<newline>''
       @ ''      <param xsi:type=\"ns2:Map\">'' @ ''\<newline>''
       @ ''        <item>'' @ ''\<newline>''
       @ ''          <key>apiKey</key>'' @ ''\<newline>''
       @ ''          <value>'' @ EscapeString (ApiKey r) @ ''</value>'' @ ''\<newline>''
       @ ''        </item>'' @ ''\<newline>''
       @ ''        <item>'' @ ''\<newline>''
       @ ''          <key>resellerID</key>'' @ ''\<newline>''
       @ ''          <value>'' @ EscapeString (ResellerID r) @ ''</value>'' @ ''\<newline>''
       @ ''        </item>'' @ ''\<newline>''
       @ ''      </param>'' @ ''\<newline>''
       @ ''    </ns1:listDomains>'' @ ''\<newline>''
       @ ''  </Body>'' @ ''\<newline>''
       @ ''</Envelope>'')"
  by (simp add: writeEnd_new_line butlast_append createSOAPRequest_def MarshalIndent_def marshalEnvelope_def xml_Header_def
      writeStart_Envelope writeStart_indented marshalInterface_indented MarshalXML_indented
      orReturn_def indented_tags indented_sel attrsText_def EscapeString_consts)


text \<open>
  Claim C7. For every pair of credentials \<open>createSOAPRequest\<close> succeeds, and its bytes are
  the XML declaration followed by this document: the root \<open>Envelope\<close> with the three
  declarations \<open>xmlns:SOAP-ENV\<close>, \<open>xmlns:ns1\<close> and \<open>xmlns:ns2\<close>, its \<open>Body\<close>, the one element
  \<open>ns1:listDomains\<close> in it, the one \<open>param\<close> of type \<open>ns2:Map\<close> in that, and in the
  \<open>param\<close> two \<open>item\<close>s of a \<open>key\<close> and a \<open>value\<close> each, \<open>apiKey\<close> first and \<open>resellerID\<close>
  second, the values escaped.
\<close>

theorem createSOAPRequest_envelope:
  "createSOAPRequest \<lparr>ApiKey = key, ResellerID = reseller\<rparr> =
     Inr (''<?xml version=\"1.0\" encoding=\"UTF-8\"?>'' @ ''\<newline>''
       @ ''<Envelope xmlns:SOAP-ENV=\"http://schemas.xmlsoap.org/soap/envelope/\"''
       @ '' xmlns:ns1=\"http://api.synergywholesale.com\"''
       @ '' xmlns:ns2=\"http://xml.apache.org/xml-soap\">'' @ ''\<newline>''
       @ ''  <Body>'' @ ''\<newline>''
       @ ''    <ns1:listDomains>'' @ ''\<newline>''
       @ ''      <param xsi:type=\"ns2:Map\">'' @ ''\<newline>''
       @ ''        <item>'' @ ''\<newline>''
       @ ''          <key>apiKey</key>'' @ ''\<newline>''
       @ ''          <value>'' @ EscapeString key @ ''</value>'' @ ''\<newline>''
       @ ''        </item>'' @ ''\<newline>''
       @ ''        <item>'' @ ''\<newline>''
       @ ''          <key>resellerID</key>'' @ ''\<newline>''
       @ ''          <value>'' @ EscapeString reseller @ ''</value>'' @ ''\<newline>''
       @ ''        </item>'' @ ''\<newline>''
       @ ''      </param>'' @ ''\<newline>''
       @ ''    </ns1:listDomains>'' @ ''\<newline>''
       @ ''  </Body>'' @ ''\<newline>''
       @ ''</Envelope>'')"
  using createSOAPRequest_bytes [of "\<lparr>ApiKey = key, ResellerID = reseller\<rparr>"] by simp

theorem createSOAPRequest_envelope_witness:
  "createSOAPRequest \<lparr>ApiKey = ''a&b'', ResellerID = ''123''\<rparr> =
     Inr (''<?xml version=\"1.0\" encoding=\"UTF-8\"?>'' @ ''\<newline>''
       @ ''<Envelope xmlns:SOAP-ENV=\"http://schemas.xmlsoap.org/soap/envelope/\"''
       @ '' xmlns:ns1=\"http://api.synergywholesale.com\"''
       @ '' xmlns:ns2=\"http://xml.apache.org/xml-soap\">'' @ ''\<newline>''
       @ ''  <Body>'' @ ''\<newline>''
       @ ''    <ns1:listDomains>'' @ ''\<newline>''
       @ ''      <param xsi:type=\"ns2:Map\">'' @ ''\<newline>''
       @ ''        <item>'' @ ''\<newline>''
       @ ''          <key>apiKey</key>'' @ ''\<newline>''
       @ ''          <value>a&amp;b</value>'' @ ''\<newline>''
       @ ''        </item>'' @ ''\<newline>''
       @ ''        <item>'' @ ''\<newline>''
       @ ''          <key>resellerID</key>'' @ ''\<newline>''
       @ ''          <value>123</value>'' @ ''\<newline>''
       @ ''        </item>'' @ ''\<newline>''
       @ ''      </param>'' @ ''\<newline>''
       @ ''    </ns1:listDomains>'' @ ''\<newline>''
       @ ''  </Body>'' @ ''\<newline>''
       @ ''</Envelope>'')"
proof -
  have "EscapeString ''a&b'' = ''a&amp;b''" and "EscapeString ''123'' = ''123''"
    by (simp_all add: EscapeString_ascii EscapeString_Nil esc_of_def byte_def
        isInCharacterRange_def RuneError_def)
  with createSOAPRequest_envelope [of "''a&b''" "''123''"] show ?thesis
    by simp
qed

section \<open>Evaluating the decoder\<close>

lemma TrimLeft_Nil: "TrimLeft [] = []"
  by (simp add: TrimLeft.simps)

lemma TrimLeft_ascii:
  "byte c < 0x80 \<Longrightarrow> TrimLeft (c # s) = (if IsSpace (byte c) then TrimLeft s else c # s)"
  by (subst TrimLeft.simps) (simp add: Let_def)

lemma TrimRight_Nil: "TrimRight [] = []"
  by (simp add: TrimRight.simps)

lemma TrimRight_ascii:
  "s \<noteq> [] \<Longrightarrow> byte (last s) < 0x80 \<Longrightarrow>
   TrimRight s = (if IsSpace (byte (last s)) then TrimRight (butlast s) else s)"
  by (subst TrimRight.simps)
     (simp add: Let_def DecodeLastRuneInString_def last_conv_nth butlast_conv_take)

lemmas trim_eval = TrimSpace_def TrimLeft_Nil TrimLeft_ascii TrimRight_Nil TrimRight_ascii
  IsSpace_def byte_def

lemma copyValue_int_1: "copyValue_int ''1'' = Inr 1"
  by (simp add: copyValue_int_def ParseInt_def trim_eval isDigitChar_def decimal_def digitVal_def)

lemma copyValue_int_ex: "copyValue_int '' -12 '' = Inr (- 12)"
  by (simp add: copyValue_int_def ParseInt_def trim_eval isDigitChar_def decimal_def digitVal_def)

lemmas unmarshal_defs = UnmarshalSOAPResponse_def Decode_def unmarshalPath_Envelope_def
  unmarshalPath_Body_def unmarshalPath_ListDomainsResponse_def unmarshalPath_DomainList_def
  unmarshalPath_domainList_def appendDomainInfo_def unmarshal_DomainInfo_def
  unmarshalPath_DomainInfo_def unmarshalPath_nameServers_def unmarshalPath_DSData_def
  unmarshalPath_DSData_item_def appendString_def Skip_def orReturn_def

lemma sample_decodes:
  "UnmarshalSOAPResponse sampleReply zero_ListDomainsResponse = Inr sampleResponse"
  by (simp add: sampleReply_def leaf_def startTag_def endTag_def unmarshal_defs
      zero_ListDomainsResponse_def zero_DomainInfo_def sampleResponse_def exampleDomain_def
      goneDomain_def copyValue_int_1 name_def Let_def)

lemma garbled_fails:
  "UnmarshalSOAPResponse [startTag ''html'', Inl (Err ''XML syntax error'')] zero_ListDomainsResponse =
     Inl (Errorf ''failed to unmarshal SOAP response: ''
            (Err ''expected element type <Envelope> but have <html>''))"
  by (simp add: startTag_def unmarshal_defs name_def)

section \<open>What the decoder rejects\<close>

lemma Decode_readRoot:
  "Decode data v = orReturn (readRoot data) (\<lambda>e. unmarshal_Envelope e v)"
  by (simp add: Decode_def readRoot_def orReturn_def split: sum.splits prod.splits)

lemma closeAll_isElement: "isElement e \<Longrightarrow> isElement (closeAll e st)"
  by (induction e st rule: closeAll.induct) simp_all

lemma readElement_isElement: "isElement (readElement s ch st ts)"
  by (induction s ch st ts rule: readElement.induct)
     (simp_all add: closeAll_isElement split: list.splits)

lemma readRoot_isElement: "readRoot data = Inr e \<Longrightarrow> isElement e"
  by (auto simp: readRoot_def orReturn_def readElement_isElement split: sum.splits)

lemma UnmarshalSOAPResponse_readRoot:
  "UnmarshalSOAPResponse data response =
     (case readRoot data of
        Inl err \<Rightarrow> Inl (Errorf ''failed to unmarshal SOAP response: '' err)
      | Inr e \<Rightarrow>
          (case unmarshal_Envelope e
                  \<lparr>apiSOAPEnvelope.XMLName = name [], Xmlns = [], Xmlns1 = [], Xmlns2 = [],
         Body = \<lparr>Content = response\<rparr>\<rparr> of
             Inl err \<Rightarrow> Inl (Errorf ''failed to unmarshal SOAP response: '' err)
           | Inr envelope \<Rightarrow> Inr (Content (Body envelope))))"
  by (simp add: UnmarshalSOAPResponse_def Decode_readRoot orReturn_def split: sum.splits)

text \<open>The loop fails when it comes to an element that its handler rejects.\<close>

lemma forChildren_fails:
  assumes "c \<in> set cs" and "isElement c" and "\<And>v. \<exists>err. f c v = Inl err"
  shows "\<exists>err. forChildren f cs v = Inl err"
  using assms(1)
proof (induction cs arbitrary: v)
  case Nil
  then show ?case by simp
next
  case (Cons a cs)
  show ?case
  proof (cases "c = a")
    case True
    with assms(2) obtain s ch where a: "a = Element s ch"
      by (cases a) simp_all
    from assms(3) [of v] True obtain err where "f a v = Inl err"
      by blast
    with a show ?thesis by simp
  next
    case False
    with Cons.prems have "c \<in> set cs" by simp
    then have rest: "\<exists>err. forChildren f cs w = Inl err" for w
      by (rule Cons.IH)
    show ?thesis
    proof (cases a)
      case (Element s ch)
      with rest show ?thesis
        by (cases "f (Element s ch) v") simp_all
    next
      case (Text d)
      with rest show ?thesis by simp
    next
      case (Failed err)
      then show ?thesis by simp
    qed
  qed
qed

text \<open>
  An error of the reader inside an element is met by the mapping, unless the mapping has
  failed before: no part of an element is left unread.
\<close>

lemma firstError_None: "firstError es = None \<longleftrightarrow> (\<forall>e \<in> set es. e = None)"
  by (induction es rule: firstError.induct) simp_all

lemma failure_children:
  "failure c = None \<Longrightarrow> d \<in> set (children c) \<Longrightarrow> failure d = None"
  by (cases c) (simp_all add: firstError_None)

lemma failure_Element:
  "isElement c \<Longrightarrow> failure c = firstError (map failure (children c))"
  by (cases c) simp_all

lemma chardata_failure:
  "firstError (map failure ns) = Some err \<Longrightarrow> chardata ns = Inl err"
proof (induction ns rule: chardata.induct)
  case (3 s ch ns)
  then show ?case
    by (cases "firstError (map failure ch)") simp_all
qed simp_all

lemma forChildren_failure:
  assumes "firstError (map failure cs) = Some err"
    and "\<And>c v. c \<in> set cs \<Longrightarrow> isElement c \<Longrightarrow> failure c \<noteq> None \<Longrightarrow> \<exists>e. f c v = Inl e"
  shows "\<exists>e. forChildren f cs v = Inl e"
  using assms
proof (induction cs arbitrary: v)
  case Nil
  then show ?case by simp
next
  case (Cons a cs)
  show ?case
  proof (cases a)
    case (Element s ch)
    show ?thesis
    proof (cases "f a v")
      case (Inl e)
      with Element show ?thesis by simp
    next
      case (Inr v')
      have "failure a = None"
      proof (rule ccontr)
        assume "failure a \<noteq> None"
        with Cons.prems(2) [of a v] Element obtain e where "f a v = Inl e"
          by auto
        with Inr show False by simp
      qed
      with Cons.prems(1) have "firstError (map failure cs) = Some err"
        by simp
      then have "\<exists>e. forChildren f cs v' = Inl e"
        using Cons.prems(2) by (intro Cons.IH) auto
      with Element Inr show ?thesis by simp
    qed
  next
    case (Text d)
    with Cons.prems(1) have "firstError (map failure cs) = Some err"
      by simp
    then have "\<exists>e. forChildren f cs v = Inl e"
      using Cons.prems(2) by (intro Cons.IH) auto
    with Text show ?thesis by simp
  next
    case (Failed e)
    then show ?thesis by simp
  qed
qed

lemma forChildren_failure_children:
  assumes "isElement c" and "failure c \<noteq> None"
    and "\<And>d v. isElement d \<Longrightarrow> failure d \<noteq> None \<Longrightarrow> \<exists>e. f d v = Inl e"
  shows "\<exists>e. forChildren f (children c) v = Inl e"
proof -
  from assms(1,2) obtain err where "firstError (map failure (children c)) = Some err"
    by (auto simp: failure_Element)
  then show ?thesis
    using assms(3) by (rule forChildren_failure)
qed

lemma Skip_failure: "failure c \<noteq> None \<Longrightarrow> \<exists>e. Skip c v = Inl e"
  by (auto simp: Skip_def)

lemma chardata_failure_children:
  "isElement c \<Longrightarrow> failure c \<noteq> None \<Longrightarrow> \<exists>e. chardata (children c) = Inl e"
  by (auto simp: failure_Element chardata_failure)

lemma appendString_failure:
  "isElement c \<Longrightarrow> failure c \<noteq> None \<Longrightarrow> \<exists>e. appendString c v = Inl e"
  using chardata_failure_children [of c] by (auto simp: appendString_def orReturn_def)

lemma unmarshalPath_nameServers_failure:
  "isElement c \<Longrightarrow> failure c \<noteq> None \<Longrightarrow> \<exists>e. unmarshalPath_nameServers c v = Inl e"
  using appendString_failure [of c v] Skip_failure [of c v]
  by (simp add: unmarshalPath_nameServers_def)

lemma unmarshalPath_DSData_item_failure:
  "isElement c \<Longrightarrow> failure c \<noteq> None \<Longrightarrow> \<exists>e. unmarshalPath_DSData_item c v = Inl e"
  using appendString_failure [of c v] Skip_failure [of c v]
  by (simp add: unmarshalPath_DSData_item_def)

lemma unmarshalPath_DSData_failure:
  "isElement c \<Longrightarrow> failure c \<noteq> None \<Longrightarrow> \<exists>e. unmarshalPath_DSData c v = Inl e"
  using forChildren_failure_children [of c unmarshalPath_DSData_item v]
    unmarshalPath_DSData_item_failure Skip_failure [of c v]
  by (simp add: unmarshalPath_DSData_def)

lemma orReturn_Inl: "orReturn (Inl err) f = Inl err"
  by (simp add: orReturn_def)

lemma unmarshalPath_DomainInfo_failure:
  assumes "isElement c" and "failure c \<noteq> None"
  shows "\<exists>e. unmarshalPath_DomainInfo c v = Inl e"
proof -
  from assms have "\<exists>e. chardata (children c) = Inl e"
    by (rule chardata_failure_children)
  then obtain e1 where 1: "chardata (children c) = Inl e1" ..
  from assms have "\<exists>e. forChildren unmarshalPath_nameServers (children c) (NameServers v) = Inl e"
    by (rule forChildren_failure_children) (rule unmarshalPath_nameServers_failure)
  then obtain e2 where 2: "forChildren unmarshalPath_nameServers (children c) (NameServers v) = Inl e2" ..
  from assms have "\<exists>e. forChildren unmarshalPath_DSData (children c) (DNSSECKeys v) = Inl e"
    by (rule forChildren_failure_children) (rule unmarshalPath_DSData_failure)
  then obtain e3 where 3: "forChildren unmarshalPath_DSData (children c) (DNSSECKeys v) = Inl e3" ..
  from assms(2) have "\<exists>e. Skip c v = Inl e"
    by (rule Skip_failure)
  then obtain e4 where 4: "Skip c v = Inl e4" ..
  show ?thesis
    unfolding unmarshalPath_DomainInfo_def Let_def 1 2 3 4 orReturn_Inl
    by (simp only: if_split sum.inject simp_thms ex_simps split: if_split)
qed

lemma unmarshalPath_domainList_failure:
  assumes "isElement c" and "failure c \<noteq> None"
  shows "\<exists>e. unmarshalPath_domainList c v = Inl e"
proof -
  from assms have "\<exists>e. forChildren unmarshalPath_DomainInfo (children c) zero_DomainInfo = Inl e"
    by (rule forChildren_failure_children) (rule unmarshalPath_DomainInfo_failure)
  then obtain e1 where 1: "unmarshal_DomainInfo c = Inl e1"
    unfolding unmarshal_DomainInfo_def ..
  from assms(2) have "\<exists>e. Skip c v = Inl e"
    by (rule Skip_failure)
  then obtain e2 where 2: "Skip c v = Inl e2" ..
  show ?thesis
    by (simp add: unmarshalPath_domainList_def appendDomainInfo_def 1 2)
qed

lemma unmarshalPath_DomainList_failure:
  assumes "isElement c" and "failure c \<noteq> None"
  shows "\<exists>e. unmarshalPath_DomainList c v = Inl e"
proof -
  from assms have "\<exists>e. chardata (children c) = Inl e"
    by (rule chardata_failure_children)
  then obtain e1 where 1: "chardata (children c) = Inl e1" ..
  from assms have "\<exists>e. forChildren unmarshalPath_domainList (children c) (DomainList v) = Inl e"
    by (rule forChildren_failure_children) (rule unmarshalPath_domainList_failure)
  then obtain e2 where 2: "forChildren unmarshalPath_domainList (children c) (DomainList v) = Inl e2" ..
  from assms(2) have "\<exists>e. Skip c v = Inl e"
    by (rule Skip_failure)
  then obtain e3 where 3: "Skip c v = Inl e3" ..
  show ?thesis
    unfolding unmarshalPath_DomainList_def Let_def 1 2 3 orReturn_Inl
    by (simp only: if_split sum.inject simp_thms ex_simps split: if_split)
qed

lemma unmarshalPath_ListDomainsResponse_failure:
  assumes "isElement c" and "failure c \<noteq> None"
  shows "\<exists>e. unmarshalPath_ListDomainsResponse c v = Inl e"
proof -
  from assms have "\<exists>e. forChildren unmarshalPath_DomainList (children c) (Return v) = Inl e"
    by (rule forChildren_failure_children) (rule unmarshalPath_DomainList_failure)
  then obtain e1 where 1: "forChildren unmarshalPath_DomainList (children c) (Return v) = Inl e1" ..
  from assms(2) have "\<exists>e. Skip c v = Inl e"
    by (rule Skip_failure)
  then obtain e2 where 2: "Skip c v = Inl e2" ..
  show ?thesis
    unfolding unmarshalPath_ListDomainsResponse_def 1 2 orReturn_Inl
    by (simp only: if_split sum.inject simp_thms ex_simps split: if_split)
qed

lemma unmarshal_ListDomainsResponse_failure:
  assumes "isElement c" and "failure c \<noteq> None"
  shows "\<exists>e. unmarshal_ListDomainsResponse c v = Inl e"
proof -
  from assms(1) obtain s ch where c: "c = Element s ch"
    by (cases c) simp_all
  from assms have "\<exists>e. forChildren unmarshalPath_ListDomainsResponse (children c) w = Inl e" for w
    by (rule forChildren_failure_children) (rule unmarshalPath_ListDomainsResponse_failure)
  from this [of "v\<lparr>XMLName := StartElement.Name s\<rparr>"] c show ?thesis
    by simp
qed

lemma unmarshalPath_Body_failure:
  assumes "isElement c" and "failure c \<noteq> None"
  shows "\<exists>e. unmarshalPath_Body c v = Inl e"
proof -
  from assms have "\<exists>e. unmarshal_ListDomainsResponse c (Content v) = Inl e"
    by (rule unmarshal_ListDomainsResponse_failure)
  then obtain e1 where 1: "unmarshal_ListDomainsResponse c (Content v) = Inl e1" ..
  show ?thesis
    by (simp add: unmarshalPath_Body_def 1 orReturn_Inl)
qed

lemma unmarshalPath_Envelope_failure:
  assumes "isElement c" and "failure c \<noteq> None"
  shows "\<exists>e. unmarshalPath_Envelope c v = Inl e"
proof -
  from assms have "\<exists>e. forChildren unmarshalPath_Body (children c) (Body v) = Inl e"
    by (rule forChildren_failure_children) (rule unmarshalPath_Body_failure)
  then obtain e1 where 1: "forChildren unmarshalPath_Body (children c) (Body v) = Inl e1" ..
  from assms(2) have "\<exists>e. Skip c v = Inl e"
    by (rule Skip_failure)
  then obtain e2 where 2: "Skip c v = Inl e2" ..
  show ?thesis
    unfolding unmarshalPath_Envelope_def 1 2 orReturn_Inl
    by (simp only: if_split sum.inject simp_thms ex_simps split: if_split)
qed

lemma unmarshal_Envelope_failure:
  assumes "isElement c" and "failure c \<noteq> None"
  shows "\<exists>e. unmarshal_Envelope c v = Inl e"
proof -
  from assms(1) obtain s ch where c: "c = Element s ch"
    by (cases c) simp_all
  from assms have "\<exists>e. forChildren unmarshalPath_Envelope (children c) w = Inl e" for w
    by (rule forChildren_failure_children) (rule unmarshalPath_Envelope_failure)
  from this [of "v\<lparr>apiSOAPEnvelope.XMLName := StartElement.Name s\<rparr>"] c show ?thesis
    by simp
qed

text \<open>An element inside \<open>Body\<close> of another name than \<open>listDomainsResponse\<close>.\<close>

lemma unmarshal_ListDomainsResponse_wrong_name:
  "isElement c \<Longrightarrow> localName c \<noteq> ''listDomainsResponse'' \<Longrightarrow>
   \<exists>err. unmarshal_ListDomainsResponse c v = Inl err"
  by (cases c) simp_all

lemma unmarshalPath_Envelope_fails:
  assumes "localName b = ''Body''" and "c \<in> set (children b)"
    and "isElement c" and "localName c \<noteq> ''listDomainsResponse''"
  shows "\<exists>err. unmarshalPath_Envelope b v = Inl err"
proof -
  have "\<exists>err. unmarshalPath_Body c w = Inl err" for w
    using unmarshal_ListDomainsResponse_wrong_name [OF assms(3,4), of "Content w"]
    by (auto simp: unmarshalPath_Body_def orReturn_def)
  with assms(2,3) have "\<exists>err. forChildren unmarshalPath_Body (children b) (Body v) = Inl err"
    by (rule forChildren_fails)
  with assms(1) show ?thesis
    by (auto simp: unmarshalPath_Envelope_def orReturn_def)
qed

text \<open>Elements that are passed over, and elements that leave a part of the value as it was.\<close>

lemma forChildren_keeps:
  assumes "firstError (map failure cs) = None"
    and "\<And>c v. c \<in> set cs \<Longrightarrow> isElement c \<Longrightarrow> \<exists>v'. f c v = Inr v' \<and> g v' = g v"
  shows "\<exists>v'. forChildren f cs v = Inr v' \<and> g v' = g v"
  using assms
proof (induction cs arbitrary: v)
  case Nil
  then show ?case by simp
next
  case (Cons a cs)
  from Cons.prems(1) have rest: "firstError (map failure cs) = None"
    by (simp add: firstError_None)
  have IH: "\<exists>v'. forChildren f cs w = Inr v' \<and> g v' = g w" for w
    using rest Cons.prems(2) by (intro Cons.IH) auto
  show ?case
  proof (cases a)
    case (Element s ch)
    with Cons.prems(2) [of a v] obtain v' where v': "f a v = Inr v'" "g v' = g v"
      by auto
    from IH [of v'] obtain v'' where "forChildren f cs v' = Inr v''" "g v'' = g v'"
      by blast
    with Element v' show ?thesis by simp
  next
    case (Text d)
    with IH [of v] show ?thesis by simp
  next
    case (Failed err)
    with Cons.prems(1) show ?thesis by (simp add: firstError_None)
  qed
qed

lemma unmarshal_ListDomainsResponse_keeps:
  assumes "isElement c" and "failure c = None" and "named ''return'' (children c) = []"
    and "localName c = ''listDomainsResponse''"
  shows "\<exists>v'. unmarshal_ListDomainsResponse c v = Inr v' \<and> Return v' = Return v"
proof -
  from assms(1) obtain s ch where c: "c = Element s ch"
    by (cases c) simp_all
  from assms(1,2) have none: "firstError (map failure (children c)) = None"
    by (simp add: failure_Element)
  have "\<exists>w'. unmarshalPath_ListDomainsResponse d w = Inr w' \<and> Return w' = Return w"
    if "d \<in> set (children c)" and "isElement d" for d w
  proof -
    from that assms(3) have "localName d \<noteq> ''return''"
      by (auto simp: named_def filter_empty_conv)
    moreover from assms(2) that(1) have "failure d = None"
      by (rule failure_children)
    ultimately show ?thesis
      by (simp add: unmarshalPath_ListDomainsResponse_def Skip_def)
  qed
  with none have "\<exists>w'. forChildren unmarshalPath_ListDomainsResponse (children c) w = Inr w'
      \<and> Return w' = Return w" for w
    by (rule forChildren_keeps)
  from this [of "v\<lparr>XMLName := StartElement.Name s\<rparr>"] c assms(4) show ?thesis
    by simp
qed

lemma unmarshalPath_Envelope_keeps:
  assumes "isElement b" and "failure b = None"
    and "localName b = ''Body'' \<longrightarrow>
           (\<forall>c \<in> set (children b). isElement c \<longrightarrow>
              localName c = ''listDomainsResponse'' \<and> named ''return'' (children c) = [])"
  shows "\<exists>v'. unmarshalPath_Envelope b v = Inr v' \<and> Return (Content (Body v')) = Return (Content (Body v))"
proof (cases "localName b = ''Body''")
  case False
  with assms(2) show ?thesis
    by (simp add: unmarshalPath_Envelope_def Skip_def)
next
  case True
  from assms(1,2) have none: "firstError (map failure (children b)) = None"
    by (simp add: failure_Element)
  have "\<exists>w'. unmarshalPath_Body c w = Inr w' \<and> Return (Content w') = Return (Content w)"
    if cb: "c \<in> set (children b)" and ce: "isElement c" for c w
  proof -
    from assms(2) cb have whole: "failure c = None"
      by (rule failure_children)
    from True assms(3) cb ce
    have "localName c = ''listDomainsResponse''" and "named ''return'' (children c) = []"
      by simp_all
    with ce whole have "\<exists>r. unmarshal_ListDomainsResponse c (Content w) = Inr r
        \<and> Return r = Return (Content w)"
      by (intro unmarshal_ListDomainsResponse_keeps)
    then obtain r where "unmarshal_ListDomainsResponse c (Content w) = Inr r"
      and "Return r = Return (Content w)"
      by blast
    then show ?thesis
      by (simp add: unmarshalPath_Body_def orReturn_def)
  qed
  with none have "\<exists>w'. forChildren unmarshalPath_Body (children b) (Body v) = Inr w'
      \<and> Return (Content w') = Return (Content (Body v))"
    by (rule forChildren_keeps)
  with True show ?thesis
    by (auto simp: unmarshalPath_Envelope_def orReturn_def)
qed

text \<open>
  Claim C8, as stated, does not hold. The tokens of \<open><Envelope></Envelope>\<close> are a
  well-formed document that has no \<open>Body\<close>, no \<open>listDomainsResponse\<close> and no \<open>return\<close>,
  and \<open>UnmarshalSOAPResponse\<close> decodes it without an error, to the empty response.
\<close>

theorem missing_nesting_decodes_counterexample:
  "UnmarshalSOAPResponse [startTag ''Envelope'', endTag ''Envelope''] zero_ListDomainsResponse
     = Inr zero_ListDomainsResponse"
  by (simp add: startTag_def endTag_def unmarshal_defs zero_ListDomainsResponse_def name_def)

text \<open>
  Claim C8, amended. \<open>UnmarshalSOAPResponse\<close> fails
  \<^item> with the reader's error, when the reader stops before it has found an element (a
    syntax error up to there, or no element at all);
  \<^item> with the error \<open>expected element type <Envelope> but have <...>\<close>, when the first
    element is not named \<open>Envelope\<close>, whatever comes after its start tag;
  \<^item> when the reader stops with an error before it has read the end tag of the first
    element;
  \<^item> when an element inside a \<open>Body\<close> of the envelope is not named
    \<open>listDomainsResponse\<close>.

  An element that is absent is not an error. When the envelope is read to its end tag and
  each element inside a \<open>Body\<close> of it is a \<open>listDomainsResponse\<close> without a \<open>return\<close>
  (so also when a \<open>Body\<close> holds no element, and when there is no \<open>Body\<close>), the call
  succeeds and the field \<open>Return\<close> of the response is as it was: a response that was empty
  has no domain.
\<close>

theorem UnmarshalSOAPResponse_failures:
  "(readRoot data = Inl err \<longrightarrow>
      UnmarshalSOAPResponse data response
        = Inl (Errorf ''failed to unmarshal SOAP response: '' err))
   \<and> (readRoot data = Inr e \<longrightarrow> localName e \<noteq> ''Envelope'' \<longrightarrow>
        UnmarshalSOAPResponse data response
          = Inl (Errorf ''failed to unmarshal SOAP response: ''
                   (Err (''expected element type <Envelope> but have <'' @ localName e @ ''>''))))
   \<and> (readRoot data = Inr e \<longrightarrow> failure e = Some err \<longrightarrow>
        (\<exists>err'. UnmarshalSOAPResponse data response = Inl err'))
   \<and> (readRoot data = Inr e \<longrightarrow>
        b \<in> set (named ''Body'' (children e)) \<longrightarrow> c \<in> set (children b) \<longrightarrow>
        isElement c \<longrightarrow> localName c \<noteq> ''listDomainsResponse'' \<longrightarrow>
        (\<exists>err'. UnmarshalSOAPResponse data response = Inl err'))
   \<and> (readRoot data = Inr e \<longrightarrow> localName e = ''Envelope'' \<longrightarrow> failure e = None \<longrightarrow>
        (\<forall>b \<in> set (named ''Body'' (children e)). \<forall>c \<in> set (children b). isElement c \<longrightarrow>
            localName c = ''listDomainsResponse'' \<and> named ''return'' (children c) = []) \<longrightarrow>
        (\<exists>r. UnmarshalSOAPResponse data response = Inr r \<and> Return r = Return response))"
proof (intro conjI impI)
  let ?envelope = "\<lparr>apiSOAPEnvelope.XMLName = name [], Xmlns = [], Xmlns1 = [], Xmlns2 = [],
         Body = \<lparr>Content = response\<rparr>\<rparr>"
  {
    assume "readRoot data = Inl err"
    then show "UnmarshalSOAPResponse data response
        = Inl (Errorf ''failed to unmarshal SOAP response: '' err)"
      by (simp add: UnmarshalSOAPResponse_readRoot)
  }
  {
    assume r: "readRoot data = Inr e" and other: "localName e \<noteq> ''Envelope''"
    from r have "isElement e" by (rule readRoot_isElement)
    with other have "unmarshal_Envelope e ?envelope
        = Inl (Err (''expected element type <Envelope> but have <'' @ localName e @ ''>''))"
      by (cases e) simp_all
    with r show "UnmarshalSOAPResponse data response
        = Inl (Errorf ''failed to unmarshal SOAP response: ''
                 (Err (''expected element type <Envelope> but have <'' @ localName e @ ''>'')))"
      by (simp add: UnmarshalSOAPResponse_readRoot)
  }
  {
    assume r: "readRoot data = Inr e" and "failure e = Some err"
    from r have "isElement e" by (rule readRoot_isElement)
    with \<open>failure e = Some err\<close> obtain err' where "unmarshal_Envelope e ?envelope = Inl err'"
      using unmarshal_Envelope_failure [of e ?envelope] by auto
    with r show "\<exists>err'. UnmarshalSOAPResponse data response = Inl err'"
      by (simp add: UnmarshalSOAPResponse_readRoot)
  }
  {
    assume r: "readRoot data = Inr e"
      and b: "b \<in> set (named ''Body'' (children e))" and c: "c \<in> set (children b)"
      and bad: "isElement c" "localName c \<noteq> ''listDomainsResponse''"
    from b have b': "b \<in> set (children e)" "isElement b" "localName b = ''Body''"
      by (simp_all add: named_def)
    from b'(3) c bad have "\<exists>err'. unmarshalPath_Envelope b v = Inl err'" for v
      by (rule unmarshalPath_Envelope_fails)
    with b'(1,2) have "\<exists>err'. forChildren unmarshalPath_Envelope (children e) v = Inl err'" for v
      by (rule forChildren_fails)
    then have "\<exists>err'. unmarshal_Envelope e v = Inl err'" for v
      by (cases e) simp_all
    then obtain err' where "unmarshal_Envelope e ?envelope = Inl err'"
      by blast
    with r show "\<exists>err'. UnmarshalSOAPResponse data response = Inl err'"
      by (simp add: UnmarshalSOAPResponse_readRoot)
  }
  {
    assume r: "readRoot data = Inr e" and env: "localName e = ''Envelope''"
      and whole: "failure e = None"
      and none: "\<forall>b \<in> set (named ''Body'' (children e)). \<forall>c \<in> set (children b). isElement c \<longrightarrow>
            localName c = ''listDomainsResponse'' \<and> named ''return'' (children c) = []"
    from r have elem: "isElement e" by (rule readRoot_isElement)
    then obtain s ch where e: "e = Element s ch"
      by (cases e) simp_all
    from elem whole have "firstError (map failure (children e)) = None"
      by (simp add: failure_Element)
    moreover have "\<exists>v'. unmarshalPath_Envelope b v = Inr v'
        \<and> Return (Content (Body v')) = Return (Content (Body v))"
      if "b \<in> set (children e)" and "isElement b" for b v
    proof (rule unmarshalPath_Envelope_keeps)
      show "isElement b" by fact
      from whole that(1) show "failure b = None" by (rule failure_children)
      from that none show "localName b = ''Body'' \<longrightarrow>
           (\<forall>c \<in> set (children b). isElement c \<longrightarrow>
              localName c = ''listDomainsResponse'' \<and> named ''return'' (children c) = [])"
        by (simp add: named_def)
    qed
    ultimately have "\<exists>v'. forChildren unmarshalPath_Envelope (children e) v = Inr v'
        \<and> Return (Content (Body v')) = Return (Content (Body v))" for v
      by (rule forChildren_keeps)
    from this [of "?envelope\<lparr>apiSOAPEnvelope.XMLName := StartElement.Name s\<rparr>"] e env
    obtain w where "unmarshal_Envelope e ?envelope = Inr w"
      and "Return (Content (Body w)) = Return response"
      by auto
    with r show "\<exists>r. UnmarshalSOAPResponse data response = Inr r \<and> Return r = Return response"
      by (simp add: UnmarshalSOAPResponse_readRoot)
  }
qed

lemma readRoot_examples:
  "readRoot [Inr (CharData ''not XML at all'')] = Inl io_EOF"
  "readRoot [startTag ''html'', Inl (Err ''XML syntax error'')]
     = Inr (Element \<lparr>StartElement.Name = name ''html'', Attr = []\<rparr>
             [Failed (Err ''XML syntax error'')])"
  "readRoot [startTag ''Envelope'', startTag ''Body'', Inl (Err ''XML syntax error'')]
     = Inr (Element \<lparr>StartElement.Name = name ''Envelope'', Attr = []\<rparr>
             [Element \<lparr>StartElement.Name = name ''Body'', Attr = []\<rparr>
               [Failed (Err ''XML syntax error'')]])"
  "readRoot [startTag ''Envelope'', startTag ''Body'', startTag ''Fault'', endTag ''Fault'',
             endTag ''Body'', endTag ''Envelope'']
     = Inr (Element \<lparr>StartElement.Name = name ''Envelope'', Attr = []\<rparr>
             [Element \<lparr>StartElement.Name = name ''Body'', Attr = []\<rparr>
               [Element \<lparr>StartElement.Name = name ''Fault'', Attr = []\<rparr> []]])"
  "readRoot [startTag ''Envelope'', startTag ''Body'', startTag ''listDomainsResponse'',
             startTag ''status'', endTag ''status'', endTag ''listDomainsResponse'',
             endTag ''Body'', endTag ''Envelope'']
     = Inr (Element \<lparr>StartElement.Name = name ''Envelope'', Attr = []\<rparr>
             [Element \<lparr>StartElement.Name = name ''Body'', Attr = []\<rparr>
               [Element \<lparr>StartElement.Name = name ''listDomainsResponse'', Attr = []\<rparr>
                 [Element \<lparr>StartElement.Name = name ''status'', Attr = []\<rparr> []]]])"
  by (simp_all add: readRoot_def orReturn_def startTag_def endTag_def)

theorem UnmarshalSOAPResponse_failures_witness:
  "UnmarshalSOAPResponse [Inr (CharData ''not XML at all'')] zero_ListDomainsResponse
     = Inl (Errorf ''failed to unmarshal SOAP response: '' io_EOF)
   \<and> UnmarshalSOAPResponse [startTag ''html'', Inl (Err ''XML syntax error'')]
         zero_ListDomainsResponse
       = Inl (Errorf ''failed to unmarshal SOAP response: ''
                (Err ''expected element type <Envelope> but have <html>''))
   \<and> (\<exists>err'. UnmarshalSOAPResponse
         [startTag ''Envelope'', startTag ''Body'', Inl (Err ''XML syntax error'')]
         zero_ListDomainsResponse = Inl err')
   \<and> (\<exists>err'. UnmarshalSOAPResponse
         [startTag ''Envelope'', startTag ''Body'', startTag ''Fault'', endTag ''Fault'',
          endTag ''Body'', endTag ''Envelope''] zero_ListDomainsResponse = Inl err')
   \<and> (\<exists>r. UnmarshalSOAPResponse
         [startTag ''Envelope'', startTag ''Body'', startTag ''listDomainsResponse'',
          startTag ''status'', endTag ''status'', endTag ''listDomainsResponse'',
          endTag ''Body'', endTag ''Envelope''] zero_ListDomainsResponse = Inr r
        \<and> DomainList (Return r) = [])"
proof (intro conjI)
  show "UnmarshalSOAPResponse [Inr (CharData ''not XML at all'')] zero_ListDomainsResponse
     = Inl (Errorf ''failed to unmarshal SOAP response: '' io_EOF)"
    using UnmarshalSOAPResponse_failures
      [where data = "[Inr (CharData ''not XML at all'')]" and err = io_EOF
         and response = zero_ListDomainsResponse]
    by (simp add: readRoot_examples)
  show "UnmarshalSOAPResponse [startTag ''html'', Inl (Err ''XML syntax error'')]
         zero_ListDomainsResponse
       = Inl (Errorf ''failed to unmarshal SOAP response: ''
                (Err ''expected element type <Envelope> but have <html>''))"
    using UnmarshalSOAPResponse_failures
      [where data = "[startTag ''html'', Inl (Err ''XML syntax error'')]"
         and e = "Element \<lparr>StartElement.Name = name ''html'', Attr = []\<rparr>
                    [Failed (Err ''XML syntax error'')]"
         and response = zero_ListDomainsResponse]
    by (simp add: readRoot_examples name_def)
  show "\<exists>err'. UnmarshalSOAPResponse
         [startTag ''Envelope'', startTag ''Body'', Inl (Err ''XML syntax error'')]
         zero_ListDomainsResponse = Inl err'"
    using UnmarshalSOAPResponse_failures
      [where data = "[startTag ''Envelope'', startTag ''Body'', Inl (Err ''XML syntax error'')]"
         and e = "Element \<lparr>StartElement.Name = name ''Envelope'', Attr = []\<rparr>
             [Element \<lparr>StartElement.Name = name ''Body'', Attr = []\<rparr>
               [Failed (Err ''XML syntax error'')]]"
         and err = "Err ''XML syntax error''"
         and response = zero_ListDomainsResponse]
    by (simp add: readRoot_examples)
  show "\<exists>err'. UnmarshalSOAPResponse
         [startTag ''Envelope'', startTag ''Body'', startTag ''Fault'', endTag ''Fault'',
          endTag ''Body'', endTag ''Envelope''] zero_ListDomainsResponse = Inl err'"
    using UnmarshalSOAPResponse_failures
      [where data = "[startTag ''Envelope'', startTag ''Body'', startTag ''Fault'', endTag ''Fault'',
          endTag ''Body'', endTag ''Envelope'']"
         and e = "Element \<lparr>StartElement.Name = name ''Envelope'', Attr = []\<rparr>
             [Element \<lparr>StartElement.Name = name ''Body'', Attr = []\<rparr>
               [Element \<lparr>StartElement.Name = name ''Fault'', Attr = []\<rparr> []]]"
         and b = "Element \<lparr>StartElement.Name = name ''Body'', Attr = []\<rparr>
               [Element \<lparr>StartElement.Name = name ''Fault'', Attr = []\<rparr> []]"
         and c = "Element \<lparr>StartElement.Name = name ''Fault'', Attr = []\<rparr> []"
         and response = zero_ListDomainsResponse]
    by (simp add: readRoot_examples named_def name_def)
  have "\<exists>r. UnmarshalSOAPResponse
         [startTag ''Envelope'', startTag ''Body'', startTag ''listDomainsResponse'',
          startTag ''status'', endTag ''status'', endTag ''listDomainsResponse'',
          endTag ''Body'', endTag ''Envelope''] zero_ListDomainsResponse = Inr r
        \<and> Return r = Return zero_ListDomainsResponse"
    using UnmarshalSOAPResponse_failures
      [where data = "[startTag ''Envelope'', startTag ''Body'', startTag ''listDomainsResponse'',
          startTag ''status'', endTag ''status'', endTag ''listDomainsResponse'',
          endTag ''Body'', endTag ''Envelope'']"
         and e = "Element \<lparr>StartElement.Name = name ''Envelope'', Attr = []\<rparr>
             [Element \<lparr>StartElement.Name = name ''Body'', Attr = []\<rparr>
               [Element \<lparr>StartElement.Name = name ''listDomainsResponse'', Attr = []\<rparr>
                 [Element \<lparr>StartElement.Name = name ''status'', Attr = []\<rparr> []]]]"
         and response = zero_ListDomainsResponse]
    by (simp add: readRoot_examples named_def name_def)
  then show "\<exists>r. UnmarshalSOAPResponse
         [startTag ''Envelope'', startTag ''Body'', startTag ''listDomainsResponse'',
          startTag ''status'', endTag ''status'', endTag ''listDomainsResponse'',
          endTag ''Body'', endTag ''Envelope''] zero_ListDomainsResponse = Inr r
        \<and> DomainList (Return r) = []"
    by (auto simp: zero_ListDomainsResponse_def)
qed

section \<open>The cache\<close>

lemma createSOAPRequest_requestBytes:
  "createSOAPRequest (listDomainsRequest fl) = Inr (requestBytes fl)"
  by (simp add: requestBytes_def createSOAPRequest_bytes)

lemma SendSOAPRequest_posts:
  "SendSOAPRequest upstream (listDomainsRequest fl) = (upstream (requestBytes fl), [requestBytes fl])"
  by (simp add: SendSOAPRequest_def createSOAPRequest_requestBytes)

lemma getDomains_fresh:
  "now <s cacheExpires c \<Longrightarrow> getDomains fl upstream now now' c = (listDomainsResponse c, c, [])"
  by (simp add: getDomains_def)

lemma getDomains_transport_error:
  assumes "\<not> now <s cacheExpires c" and "upstream (requestBytes fl) = Inl err"
  shows "getDomains fl upstream now now' c = (zero_ListDomainsResponse, c, [requestBytes fl])"
  using assms by (simp add: getDomains_def SendSOAPRequest_posts)

lemma getDomains_decode_error:
  assumes "\<not> now <s cacheExpires c" and "upstream (requestBytes fl) = Inr data"
    and "UnmarshalSOAPResponse data zero_ListDomainsResponse = Inl err2"
  shows "getDomains fl upstream now now' c = (zero_ListDomainsResponse, c, [requestBytes fl])"
  using assms by (simp add: getDomains_def SendSOAPRequest_posts)

lemma getDomains_refreshed:
  assumes "\<not> now <s cacheExpires c" and "upstream (requestBytes fl) = Inr data"
    and "UnmarshalSOAPResponse data zero_ListDomainsResponse = Inr response"
  shows "getDomains fl upstream now now' c =
           (response,
            \<lparr>listDomainsResponse = response, cacheExpires = now' + cacheTTLSeconds fl\<rparr>,
            [requestBytes fl])"
  using assms by (simp add: getDomains_def SendSOAPRequest_posts)

lemma getDomains_stale_posts:
  assumes "\<not> now <s cacheExpires c"
  shows "snd (snd (getDomains fl upstream now now' c)) = [requestBytes fl]"
  using assms by (simp add: getDomains_def SendSOAPRequest_posts split: sum.splits)

lemma sless_sint: "(a :: int64) <s b \<longleftrightarrow> sint a < sint b"
  by (simp add: word_sless_alt)

text \<open>
  Claim C1. Every call of \<open>getDomains\<close> that reads the clock strictly before \<open>cacheExpires\<close>
  returns the stored response, leaves the two variables as they are and posts nothing. A
  call that reads the clock at or after \<open>cacheExpires\<close> posts the one request; when the
  exchange and the decoding succeed, it stores the decoded response, sets \<open>cacheExpires\<close>
  to the clock (read again at that moment) plus the TTL, in \<open>int64\<close> arithmetic, and
  returns the decoded response. The comparison is strict: at the instant \<open>cacheExpires\<close>
  itself the entry is stale. Before the first store \<open>cacheExpires\<close> is 0, the epoch, so the
  first call, at any time from the epoch on, refreshes.
\<close>

theorem getDomains_fresh_or_refresh:
  "(sint now < sint (cacheExpires c) \<longrightarrow>
      getDomains fl upstream now now' c = (listDomainsResponse c, c, []))
   \<and> (sint (cacheExpires c) \<le> sint now \<longrightarrow>
        snd (snd (getDomains fl upstream now now' c)) = [requestBytes fl]
        \<and> (\<forall>data response.
              upstream (requestBytes fl) = Inr data \<longrightarrow>
              UnmarshalSOAPResponse data zero_ListDomainsResponse = Inr response \<longrightarrow>
              getDomains fl upstream now now' c =
                (response,
                 \<lparr>listDomainsResponse = response, cacheExpires = now' + cacheTTLSeconds fl\<rparr>,
                 [requestBytes fl])))
   \<and> (0 \<le> sint now \<longrightarrow>
        snd (snd (getDomains fl upstream now now' initCache)) = [requestBytes fl])"
proof (intro conjI impI allI)
  assume "sint now < sint (cacheExpires c)"
  then show "getDomains fl upstream now now' c = (listDomainsResponse c, c, [])"
    by (simp add: getDomains_fresh sless_sint)
next
  assume "sint (cacheExpires c) \<le> sint now"
  then show "snd (snd (getDomains fl upstream now now' c)) = [requestBytes fl]"
    by (simp add: getDomains_stale_posts sless_sint)
next
  fix data response
  assume "sint (cacheExpires c) \<le> sint now" and "upstream (requestBytes fl) = Inr data"
    and "UnmarshalSOAPResponse data zero_ListDomainsResponse = Inr response"
  then show "getDomains fl upstream now now' c =
      (response, \<lparr>listDomainsResponse = response, cacheExpires = now' + cacheTTLSeconds fl\<rparr>,
       [requestBytes fl])"
    by (simp add: getDomains_refreshed sless_sint)
next
  assume "0 \<le> sint now"
  then show "snd (snd (getDomains fl upstream now now' initCache)) = [requestBytes fl]"
    by (simp add: getDomains_stale_posts sless_sint initCache_def)
qed

theorem getDomains_fresh_or_refresh_witness:
  "getDomains sampleFlags upstreamDown 999 999 \<lparr>listDomainsResponse = sampleResponse, cacheExpires = 1000\<rparr>
     = (sampleResponse, \<lparr>listDomainsResponse = sampleResponse, cacheExpires = 1000\<rparr>, [])
   \<and> getDomains sampleFlags upstreamSample 1000 1002 \<lparr>listDomainsResponse = zero_ListDomainsResponse, cacheExpires = 1000\<rparr>
     = (sampleResponse, \<lparr>listDomainsResponse = sampleResponse, cacheExpires = 4602\<rparr>,
        [requestBytes sampleFlags])
   \<and> snd (snd (getDomains sampleFlags upstreamSample 1700000000 1700000001 initCache))
     = [requestBytes sampleFlags]"
proof -
  have fresh: "sint (999 :: int64) < sint (cacheExpires \<lparr>listDomainsResponse = sampleResponse, cacheExpires = 1000\<rparr>)"
    by simp
  have stale: "sint (cacheExpires \<lparr>listDomainsResponse = zero_ListDomainsResponse, cacheExpires = 1000\<rparr>) \<le> sint (1000 :: int64)"
    by simp
  have epoch: "0 \<le> sint (1700000000 :: int64)"
    by simp
  have reply: "upstreamSample (requestBytes sampleFlags) = Inr sampleReply"
    by (simp add: upstreamSample_def)
  have ttl: "(1002 :: int64) + cacheTTLSeconds sampleFlags = 4602"
    by (simp add: sampleFlags_def)
  from getDomains_fresh_or_refresh [of 999 "\<lparr>listDomainsResponse = sampleResponse, cacheExpires = 1000\<rparr>" sampleFlags upstreamDown 999] fresh
  have 1: "getDomains sampleFlags upstreamDown 999 999 \<lparr>listDomainsResponse = sampleResponse, cacheExpires = 1000\<rparr>
     = (sampleResponse, \<lparr>listDomainsResponse = sampleResponse, cacheExpires = 1000\<rparr>, [])"
    by simp
  from getDomains_fresh_or_refresh [of 1000 "\<lparr>listDomainsResponse = zero_ListDomainsResponse, cacheExpires = 1000\<rparr>" sampleFlags upstreamSample 1002] stale reply sample_decodes ttl
  have 2: "getDomains sampleFlags upstreamSample 1000 1002 \<lparr>listDomainsResponse = zero_ListDomainsResponse, cacheExpires = 1000\<rparr>
     = (sampleResponse, \<lparr>listDomainsResponse = sampleResponse, cacheExpires = 4602\<rparr>,
        [requestBytes sampleFlags])"
    by simp
  from getDomains_fresh_or_refresh [of 1700000000 initCache sampleFlags upstreamSample 1700000001] epoch
  have 3: "snd (snd (getDomains sampleFlags upstreamSample 1700000000 1700000001 initCache))
     = [requestBytes sampleFlags]"
    by simp
  from 1 2 3 show ?thesis by simp
qed


text \<open>
  Claim C2. When the refresh of a stale cache fails, in the exchange or in the decoding,
  \<open>getDomains\<close> returns the empty response, which has no domains, and leaves the stored
  response and \<open>cacheExpires\<close> as they were. Nothing is raised: \<open>getDomains\<close> returns a
  response in every case, and the \<open>Collect\<close> that called it completes, having sent
  nothing on the channel.
\<close>

theorem refresh_failure_returns_empty:
  assumes "sint (cacheExpires c) \<le> sint now"
    and "(\<exists>err. upstream (requestBytes fl) = Inl err)
         \<or> (\<exists>data err2. upstream (requestBytes fl) = Inr data
               \<and> UnmarshalSOAPResponse data zero_ListDomainsResponse = Inl err2)"
  shows "getDomains fl upstream now now' c = (zero_ListDomainsResponse, c, [requestBytes fl])
         \<and> DomainList (Return zero_ListDomainsResponse) = []
         \<and> Collect collector fl upstream now now' c ch = (Inr ch, c, [requestBytes fl])"
proof -
  from assms(1) have stale: "\<not> now <s cacheExpires c"
    by (simp add: sless_sint)
  from assms(2) have g: "getDomains fl upstream now now' c = (zero_ListDomainsResponse, c, [requestBytes fl])"
  proof (elim disjE exE conjE)
    fix err
    assume "upstream (requestBytes fl) = Inl err"
    with stale show ?thesis by (rule getDomains_transport_error)
  next
    fix data err2
    assume "upstream (requestBytes fl) = Inr data"
      and "UnmarshalSOAPResponse data zero_ListDomainsResponse = Inl err2"
    with stale show ?thesis by (rule getDomains_decode_error)
  qed
  have z: "DomainList (Return zero_ListDomainsResponse) = []"
    by (simp add: zero_ListDomainsResponse_def)
  from g z show ?thesis
    by (simp add: Collect_def)
qed

theorem refresh_failure_returns_empty_witness:
  "getDomains sampleFlags upstreamDown 5000 5001 \<lparr>listDomainsResponse = sampleResponse, cacheExpires = 4602\<rparr>
     = (zero_ListDomainsResponse, \<lparr>listDomainsResponse = sampleResponse, cacheExpires = 4602\<rparr>,
        [requestBytes sampleFlags])
   \<and> Collect newCollector sampleFlags upstreamGarbled 5000 5001
         \<lparr>listDomainsResponse = sampleResponse, cacheExpires = 4602\<rparr> []
     = (Inr [], \<lparr>listDomainsResponse = sampleResponse, cacheExpires = 4602\<rparr>,
        [requestBytes sampleFlags])"
proof -
  have stale: "sint (cacheExpires \<lparr>listDomainsResponse = sampleResponse, cacheExpires = 4602\<rparr>)
                 \<le> sint (5000 :: int64)"
    by simp
  have down: "(\<exists>err. upstreamDown (requestBytes sampleFlags) = Inl err)
      \<or> (\<exists>data err2. upstreamDown (requestBytes sampleFlags) = Inr data
            \<and> UnmarshalSOAPResponse data zero_ListDomainsResponse = Inl err2)"
    by (simp add: upstreamDown_def)
  have garbled: "(\<exists>err. upstreamGarbled (requestBytes sampleFlags) = Inl err)
      \<or> (\<exists>data err2. upstreamGarbled (requestBytes sampleFlags) = Inr data
            \<and> UnmarshalSOAPResponse data zero_ListDomainsResponse = Inl err2)"
    by (simp add: upstreamGarbled_def garbled_fails)
  from refresh_failure_returns_empty
         [where c = "\<lparr>listDomainsResponse = sampleResponse, cacheExpires = 4602\<rparr>"
            and now = 5000 and now' = 5001 and fl = sampleFlags and upstream = upstreamDown
            and collector = newCollector and ch = "[]", OF stale down]
       refresh_failure_returns_empty
         [where c = "\<lparr>listDomainsResponse = sampleResponse, cacheExpires = 4602\<rparr>"
            and now = 5000 and now' = 5001 and fl = sampleFlags and upstream = upstreamGarbled
            and collector = newCollector and ch = "[]", OF stale garbled]
  show ?thesis by simp
qed

text \<open>
  Claim C3, as stated, does not hold: after a successful refresh has stored the sample, a
  call whose refresh fails returns the empty response, not the stored one.
\<close>

theorem failed_refresh_returns_prior_data_counterexample:
  "fst (getDomains sampleFlags upstreamSample 1000 1002 initCache) = sampleResponse
   \<and> fst (snd (getDomains sampleFlags upstreamSample 1000 1002 initCache))
       = \<lparr>listDomainsResponse = sampleResponse, cacheExpires = 4602\<rparr>
   \<and> fst (getDomains sampleFlags upstreamDown 5000 5001
            \<lparr>listDomainsResponse = sampleResponse, cacheExpires = 4602\<rparr>)
       = zero_ListDomainsResponse
   \<and> zero_ListDomainsResponse \<noteq> sampleResponse"
proof -
  have "\<not> (1000 :: int64) <s cacheExpires initCache"
    by (simp add: initCache_def sless_sint)
  then have 1: "getDomains sampleFlags upstreamSample 1000 1002 initCache =
      (sampleResponse, \<lparr>listDomainsResponse = sampleResponse, cacheExpires = 4602\<rparr>,
       [requestBytes sampleFlags])"
    using getDomains_refreshed [of 1000 initCache upstreamSample sampleFlags sampleReply sampleResponse 1002]
    by (simp add: upstreamSample_def sample_decodes sampleFlags_def)
  have "\<not> (5000 :: int64) <s cacheExpires \<lparr>listDomainsResponse = sampleResponse, cacheExpires = 4602\<rparr>"
    by (simp add: sless_sint)
  then have 2: "getDomains sampleFlags upstreamDown 5000 5001
      \<lparr>listDomainsResponse = sampleResponse, cacheExpires = 4602\<rparr> =
      (zero_ListDomainsResponse, \<lparr>listDomainsResponse = sampleResponse, cacheExpires = 4602\<rparr>,
       [requestBytes sampleFlags])"
    by (rule getDomains_transport_error) (simp add: upstreamDown_def)
  have 3: "zero_ListDomainsResponse \<noteq> sampleResponse"
    by (simp add: zero_ListDomainsResponse_def sampleResponse_def name_def)
  from 1 2 3 show ?thesis by simp
qed

text \<open>
  Claim C3, amended. When the refresh of a stale cache fails, after an earlier refresh has
  stored a response or not, the call returns the empty response; the stored response and
  \<open>cacheExpires\<close> are left as they were, so the stored response is still there, and every
  later call, which reads a clock that has not gone back, finds the cache stale again and
  posts a request of its own.
\<close>

theorem failed_refresh_keeps_entry_and_retries:
  assumes "sint (cacheExpires c) \<le> sint now"
    and "(\<exists>err. upstream (requestBytes fl) = Inl err)
         \<or> (\<exists>data err2. upstream (requestBytes fl) = Inr data
               \<and> UnmarshalSOAPResponse data zero_ListDomainsResponse = Inl err2)"
    and "getDomains fl upstream now now' c = (r, c', posted)"
  shows "r = zero_ListDomainsResponse
         \<and> listDomainsResponse c' = listDomainsResponse c
         \<and> cacheExpires c' = cacheExpires c
         \<and> (\<forall>upstream2 now2 now2'. sint now \<le> sint now2 \<longrightarrow>
               snd (snd (getDomains fl upstream2 now2 now2' c')) = [requestBytes fl])"
proof -
  from assms(1) have stale: "\<not> now <s cacheExpires c"
    by (simp add: sless_sint)
  from assms(2) have "getDomains fl upstream now now' c = (zero_ListDomainsResponse, c, [requestBytes fl])"
  proof (elim disjE exE conjE)
    fix err
    assume "upstream (requestBytes fl) = Inl err"
    with stale show ?thesis by (rule getDomains_transport_error)
  next
    fix data err2
    assume "upstream (requestBytes fl) = Inr data"
      and "UnmarshalSOAPResponse data zero_ListDomainsResponse = Inl err2"
    with stale show ?thesis by (rule getDomains_decode_error)
  qed
  with assms(3) have r: "r = zero_ListDomainsResponse" and c': "c' = c"
    by simp_all
  have "snd (snd (getDomains fl upstream2 now2 now2' c)) = [requestBytes fl]"
    if "sint now \<le> sint now2" for upstream2 now2 now2'
  proof -
    from that assms(1) have "\<not> now2 <s cacheExpires c"
      by (simp add: sless_sint)
    then show ?thesis by (rule getDomains_stale_posts)
  qed
  with r c' show ?thesis by simp
qed

theorem failed_refresh_keeps_entry_and_retries_witness:
  "listDomainsResponse (fst (snd (getDomains sampleFlags upstreamDown 5000 5001
       \<lparr>listDomainsResponse = sampleResponse, cacheExpires = 4602\<rparr>))) = sampleResponse
   \<and> cacheExpires (fst (snd (getDomains sampleFlags upstreamDown 5000 5001
       \<lparr>listDomainsResponse = sampleResponse, cacheExpires = 4602\<rparr>))) = 4602
   \<and> snd (snd (getDomains sampleFlags upstreamSample 5002 5003
       (fst (snd (getDomains sampleFlags upstreamDown 5000 5001
          \<lparr>listDomainsResponse = sampleResponse, cacheExpires = 4602\<rparr>))))) = [requestBytes sampleFlags]"
proof -
  have stale: "sint (cacheExpires \<lparr>listDomainsResponse = sampleResponse, cacheExpires = 4602\<rparr>)
                 \<le> sint (5000 :: int64)"
    by simp
  have down: "(\<exists>err. upstreamDown (requestBytes sampleFlags) = Inl err)
      \<or> (\<exists>data err2. upstreamDown (requestBytes sampleFlags) = Inr data
            \<and> UnmarshalSOAPResponse data zero_ListDomainsResponse = Inl err2)"
    by (simp add: upstreamDown_def)
  have later: "sint (5000 :: int64) \<le> sint (5002 :: int64)"
    by simp
  obtain r c' posted where g: "getDomains sampleFlags upstreamDown 5000 5001
       \<lparr>listDomainsResponse = sampleResponse, cacheExpires = 4602\<rparr> = (r, c', posted)"
    by (cases "getDomains sampleFlags upstreamDown 5000 5001
       \<lparr>listDomainsResponse = sampleResponse, cacheExpires = 4602\<rparr>") auto
  from failed_refresh_keeps_entry_and_retries
         [where c = "\<lparr>listDomainsResponse = sampleResponse, cacheExpires = 4602\<rparr>"
            and now = 5000 and now' = 5001 and fl = sampleFlags and upstream = upstreamDown,
          OF stale down g] later
  show ?thesis by (simp add: g)
qed

section \<open>Dates\<close>

lemma skip_Nil: "skip v [] = Inr v"
  by (simp add: skip.simps)

lemma skip_char:
  "p \<noteq> CHR '' '' \<Longrightarrow>
   skip v (p # pre) = (if v = [] \<or> hd v \<noteq> p then Inl errBad else skip (tl v) pre)"
  by (subst skip.simps) simp

lemma skip_space:
  "skip v (CHR '' '' # pre) =
     (if v \<noteq> [] \<and> hd v \<noteq> CHR '' '' then Inl errBad else skip (cutspace v) (cutspace pre))"
  by (subst skip.simps) (simp add: cutspace_def)

lemmas date_eval = dateStringToTimestamp_def LoadLocation_def ParseInLocation_def orReturn_def
  skip_Nil skip_char skip_space cutspace_def getnum_def isDigit_def isDigitChar_def digitVal_def
  byte_def decimal_def skipFraction_def commaOrPeriod_def daysIn_def daysBefore_def isLeap_def
  Date_Unix_def daysSinceEpoch_def leapsBefore_def Let_def

lemma Brisbane:
  "LoadLocation ''Australia/Brisbane'' = Inr \<lparr>zoneName = ''Australia/Brisbane'', zoneOffset = 36000\<rparr>"
  by (simp add: LoadLocation_def)

text \<open>
  Claim C6. \<open>dateStringToTimestamp\<close> maps \<open>"2025-12-25 10:00:00"\<close>, read in the zone
  \<open>Australia/Brisbane\<close> ten hours east of UTC, to 1766620800; it maps the empty string to
  0; and it maps every string that \<open>time.ParseInLocation\<close> does not accept for the layout
  \<open>"2006-01-02 15:04:05"\<close> to 0. It returns an \<open>int64\<close> in every case: there is no error
  to raise.
\<close>

theorem dateStringToTimestamp_values:
  "dateStringToTimestamp ''2025-12-25 10:00:00'' = 1766620800
   \<and> LoadLocation ''Australia/Brisbane''
       = Inr \<lparr>zoneName = ''Australia/Brisbane'', zoneOffset = 10 * 60 * 60\<rparr>
   \<and> dateStringToTimestamp [] = 0
   \<and> (\<forall>location err.
         LoadLocation ''Australia/Brisbane'' = Inr location \<longrightarrow>
         ParseInLocation dateString location = Inl err \<longrightarrow>
         dateStringToTimestamp dateString = 0)"
proof (intro conjI allI impI)
  show "dateStringToTimestamp ''2025-12-25 10:00:00'' = 1766620800"
    by (simp add: date_eval)
  show "LoadLocation ''Australia/Brisbane''
      = Inr \<lparr>zoneName = ''Australia/Brisbane'', zoneOffset = 10 * 60 * 60\<rparr>"
    by (simp add: LoadLocation_def)
  show "dateStringToTimestamp [] = 0"
    by (simp add: dateStringToTimestamp_def)
next
  fix location err
  assume "LoadLocation ''Australia/Brisbane'' = Inr location"
    and "ParseInLocation dateString location = Inl err"
  then show "dateStringToTimestamp dateString = 0"
    by (simp add: dateStringToTimestamp_def)
qed

theorem dateStringToTimestamp_values_witness:
  "dateStringToTimestamp ''2025-12-25T10:00:00Z'' = 0
   \<and> dateStringToTimestamp ''25/12/2025 10:00'' = 0
   \<and> dateStringToTimestamp ''2025-02-30 10:00:00'' = 0"
proof -
  have 1: "ParseInLocation ''2025-12-25T10:00:00Z''
      \<lparr>zoneName = ''Australia/Brisbane'', zoneOffset = 36000\<rparr> = Inl errBad"
    by (simp add: date_eval)
  have 2: "ParseInLocation ''25/12/2025 10:00''
      \<lparr>zoneName = ''Australia/Brisbane'', zoneOffset = 36000\<rparr> = Inl errBad"
    by (simp add: date_eval)
  have 3: "ParseInLocation ''2025-02-30 10:00:00''
      \<lparr>zoneName = ''Australia/Brisbane'', zoneOffset = 36000\<rparr> = Inl (Err ''day out of range'')"
    by (simp add: date_eval)
  from dateStringToTimestamp_values [of "''2025-12-25T10:00:00Z''"]
    dateStringToTimestamp_values [of "''25/12/2025 10:00''"]
    dateStringToTimestamp_values [of "''2025-02-30 10:00:00''"]
    Brisbane 1 2 3
  show ?thesis by blast
qed

text \<open>
  The parser is the library's, and it is more lenient than the layout reads: an hour of
  one digit, a run of spaces between date and time, and a fraction after the seconds are
  accepted.
\<close>

lemma lenient_layout:
  "dateStringToTimestamp ''2025-12-25 1:00:00'' = 1766588400"
  "dateStringToTimestamp ''2025-12-25   10:00:00.5'' = 1766620800"
  by (simp_all add: date_eval)



lemma digitVal_bound: "isDigitChar c \<Longrightarrow> 0 \<le> digitVal c \<and> digitVal c \<le> 9"
  by (auto simp: isDigitChar_def digitVal_def byte_def)



lemma getnum_bound:
  assumes "getnum s fixed = Inr (n, rest)"
  shows "0 \<le> n \<and> n \<le> 99"
proof -
  have *: "isDigit s i \<Longrightarrow> 0 \<le> digitVal (s ! i) \<and> digitVal (s ! i) \<le> 9" for i
    by (simp add: isDigit_def digitVal_bound)
  from assms show ?thesis
    using * [of 0] * [of 1]
    by (auto simp: getnum_def split: if_splits)
qed









section \<open>The collector\<close>

lemma float64_no_excess_bits: 
  assumes "\<bar>sint (x::int64)\<bar> < 2 ^ 53"
  shows "filter (\<lambda>k. 2 ^ k \<le> \<bar>sint x\<bar>) [53 ..< 64] = []"
proof -
  have "\<forall>k \<in> set [53 ..< 64]. \<not> 2 ^ k \<le> \<bar>sint x\<bar>"
  proof (intro ballI)
    fix k :: nat
    assume "k \<in> set [53 ..< 64]"
    then have "53 \<le> k"
      by (simp only: set_upt atLeastLessThan_iff)
    then have "(2 :: int) ^ 53 \<le> 2 ^ k"
      by (rule power_increasing) simp
    with assms have "\<bar>sint x\<bar> < 2 ^ k"
      by (rule less_le_trans)
    then show "\<not> 2 ^ k \<le> \<bar>sint x\<bar>"
      by (simp only: not_le)
  qed
  then show ?thesis
    by (simp only: filter_False)
qed


lemma float64_exact:
  assumes "\<bar>sint x\<bar> < 2 ^ 53"
  shows "float64 x = real_of_int (sint x)"
  unfolding float64_def Let_def float64_no_excess_bits [OF assms]
  by (simp add: mult_sgn_abs)

lemma float64_1: "float64 1 = 1"
  by (simp add: float64_exact)



text \<open>The samples of one domain whose status is \<open>OK\<close>.\<close>

lemma MustNewConstMetric_newCollector:
  "MustNewConstMetric (domainAutoRenew newCollector) vt v [a] =
     Inr \<lparr>desc = domainAutoRenew newCollector, valType = vt, val = v, labelValues = [a]\<rparr>"
  "MustNewConstMetric (domainDNSSECKeyCount newCollector) vt v [a] =
     Inr \<lparr>desc = domainDNSSECKeyCount newCollector, valType = vt, val = v, labelValues = [a]\<rparr>"
  "MustNewConstMetric (domainExpiry newCollector) vt v [a, b] =
     Inr \<lparr>desc = domainExpiry newCollector, valType = vt, val = v, labelValues = [a, b]\<rparr>"
  "MustNewConstMetric (domainNameServer newCollector) vt v [a, b] =
     Inr \<lparr>desc = domainNameServer newCollector, valType = vt, val = v, labelValues = [a, b]\<rparr>"
  by (simp_all add: MustNewConstMetric_def newCollector_def)

lemma collectNameServers_newCollector:
  "collectNameServers newCollector d servers ch =
     Inr (ch @ map (\<lambda>server. \<lparr>desc = domainNameServer newCollector, valType = GaugeValue,
                               val = 1, labelValues = [DomainName d, server]\<rparr>) servers)"
  by (induction servers arbitrary: ch)
     (simp_all add: MustNewConstMetric_newCollector orReturn_def float64_1)

lemma collectDomain_skip:
  "DomainInfo.Status d \<noteq> ''OK'' \<Longrightarrow> collectDomain collector d ch = Inr ch"
  by (simp add: collectDomain_def)

lemma collectDomain_OK:
  "DomainInfo.Status d = ''OK'' \<Longrightarrow>
   collectDomain newCollector d ch =
     Inr (ch @ [\<lparr>desc = domainAutoRenew newCollector, valType = GaugeValue,
                  val = float64 (AutoRenew d), labelValues = [DomainName d]\<rparr>,
                \<lparr>desc = domainDNSSECKeyCount newCollector, valType = GaugeValue,
                  val = float64 (word_of_nat (length (DNSSECKeys d))),
                  labelValues = [DomainName d]\<rparr>,
                \<lparr>desc = domainExpiry newCollector, valType = GaugeValue,
                  val = float64 (dateStringToTimestamp (DomainExpiry d)),
                  labelValues = [DomainName d, DomainStatus d]\<rparr>]
             @ map (\<lambda>server. \<lparr>desc = domainNameServer newCollector, valType = GaugeValue,
                                 val = 1, labelValues = [DomainName d, server]\<rparr>)
                 (NameServers d))"
  by (simp add: collectDomain_def MustNewConstMetric_newCollector orReturn_def
      collectNameServers_newCollector GetDomainExpiryTimestamp_def)


lemma collectDomain_newCollector:
  "collectDomain newCollector d ch = Inr (ch @ domainSamples d)"
  by (cases "DomainInfo.Status d = ''OK''")
     (simp_all add: collectDomain_OK collectDomain_skip domainSamples_def)

lemma collectDomains_newCollector:
  "collectDomains newCollector ds ch = Inr (ch @ concat (map domainSamples ds))"
  by (induction ds arbitrary: ch) (simp_all add: collectDomain_newCollector orReturn_def)

lemma domainSamples_label:
  "m \<in> set (domainSamples d) \<Longrightarrow>
   DomainInfo.Status d = ''OK'' \<and> hd (labelValues m) = DomainName d"
  by (auto simp: domainSamples_def split: if_splits)

lemma descs_distinct:
  "domainNameServer newCollector \<noteq> domainAutoRenew newCollector"
  "domainNameServer newCollector \<noteq> domainDNSSECKeyCount newCollector"
  "domainNameServer newCollector \<noteq> domainExpiry newCollector"
  "domainDNSSECKeyCount newCollector \<noteq> domainAutoRenew newCollector"
  "domainDNSSECKeyCount newCollector \<noteq> domainExpiry newCollector"
  "domainAutoRenew newCollector \<noteq> domainExpiry newCollector"
  by (simp_all add: newCollector_def)

text \<open>
  Claim C4. A domain whose \<open>status\<close> is not exactly \<open>"OK"\<close> adds nothing to the channel,
  whatever its other fields hold, and \<open>Collect\<close> goes on to the next domain: the samples
  of a list are the samples of the list without that domain. No sample is made from such a
  record, so every sample sent carries, as its \<open>domain\<close> label, the name of a record whose
  status is \<open>"OK"\<close>. Nothing is raised.
\<close>

theorem non_OK_domain_is_skipped:
  assumes "DomainInfo.Status d \<noteq> ''OK''"
  shows "collectDomain collector d ch = Inr ch
         \<and> collectDomains newCollector (ds @ d # ds') ch
             = collectDomains newCollector (ds @ ds') ch
         \<and> (\<exists>out. collectDomains newCollector (ds @ d # ds') ch = Inr (ch @ out)
               \<and> (\<forall>m \<in> set out. \<exists>d' \<in> set (ds @ ds').
                     DomainInfo.Status d' = ''OK'' \<and> hd (labelValues m) = DomainName d'))"
proof (intro conjI)
  from assms show "collectDomain collector d ch = Inr ch"
    by (rule collectDomain_skip)
  from assms have none: "domainSamples d = []"
    by (simp add: domainSamples_def)
  then show "collectDomains newCollector (ds @ d # ds') ch
      = collectDomains newCollector (ds @ ds') ch"
    by (simp add: collectDomains_newCollector)
  have "\<forall>m \<in> set (concat (map domainSamples (ds @ d # ds'))).
      \<exists>d' \<in> set (ds @ ds'). DomainInfo.Status d' = ''OK'' \<and> hd (labelValues m) = DomainName d'"
    using none by (auto dest: domainSamples_label)
  then show "\<exists>out. collectDomains newCollector (ds @ d # ds') ch = Inr (ch @ out)
      \<and> (\<forall>m \<in> set out. \<exists>d' \<in> set (ds @ ds').
            DomainInfo.Status d' = ''OK'' \<and> hd (labelValues m) = DomainName d')"
    by (simp only: collectDomains_newCollector) blast
qed


theorem non_OK_domain_is_skipped_witness:
  "collectDomain newCollector goneDomain [] = Inr []
   \<and> collectDomains newCollector ([exampleDomain] @ goneDomain # []) []
       = collectDomains newCollector ([exampleDomain] @ []) []"
proof -
  have "DomainInfo.Status goneDomain \<noteq> ''OK''"
    by (simp add: goneDomain_def)
  from non_OK_domain_is_skipped [OF this, of newCollector "[]" "[exampleDomain]" "[]"]
  show ?thesis by blast
qed

text \<open>A whole scrape: what \<open>Collect\<close> sends, given what \<open>getDomains\<close> returns.\<close>

lemma Collect_getDomains:
  assumes "getDomains fl upstream now now' c = (listDomainsResp, c', posted)"
  shows "Collect newCollector fl upstream now now' c ch =
           (Inr (ch @ concat (map domainSamples (DomainList (Return listDomainsResp)))),
            c', posted)"
  by (simp add: Collect_def assms collectDomains_newCollector)


text \<open>The first scrape, from the empty cache, against the server that sends the sample.\<close>

lemma getDomains_sample:
  "getDomains sampleFlags upstreamSample 1000 1002 initCache =
     (sampleResponse, \<lparr>listDomainsResponse = sampleResponse, cacheExpires = 4602\<rparr>,
      [requestBytes sampleFlags])"
proof -
  have "\<not> (1000 :: int64) <s cacheExpires initCache"
    by (simp add: initCache_def sless_sint)
  then show ?thesis
    using getDomains_refreshed [of 1000 initCache upstreamSample sampleFlags sampleReply sampleResponse 1002]
    by (simp add: upstreamSample_def sample_decodes sampleFlags_def)
qed




text \<open>
  Claim C10. \<open>Describe\<close> sends three descriptors, those of the auto-renew, the expiry and
  the name server metric, and not the descriptor of the DNSSEC key count. \<open>Collect\<close> sends
  a sample of the DNSSEC key count whenever the response of \<open>getDomains\<close> holds a domain
  whose status is \<open>"OK"\<close>. The descriptors described are a proper subset of the
  descriptors of the samples that \<open>Collect\<close> sends, over all scrapes, which are all four.
\<close>

theorem Describe_omits_DNSSEC_key_count:
  "Describe newCollector [] =
     [domainAutoRenew newCollector, domainExpiry newCollector, domainNameServer newCollector]
   \<and> domainDNSSECKeyCount newCollector \<notin> set (Describe newCollector [])
   \<and> (\<forall>fl upstream now now' c ch listDomainsResp c' posted d.
         getDomains fl upstream now now' c = (listDomainsResp, c', posted) \<longrightarrow>
         d \<in> set (DomainList (Return listDomainsResp)) \<longrightarrow> DomainInfo.Status d = ''OK'' \<longrightarrow>
         (\<exists>out. Collect newCollector fl upstream now now' c ch = (Inr out, c', posted)
            \<and> (\<exists>m \<in> set out. desc m = domainDNSSECKeyCount newCollector
                  \<and> labelValues m = [DomainName d])))
   \<and> {dsc. \<exists>fl upstream now now' c out.
              fst (Collect newCollector fl upstream now now' c []) = Inr out
              \<and> dsc \<in> desc ` set out}
       = {domainAutoRenew newCollector, domainDNSSECKeyCount newCollector,
          domainExpiry newCollector, domainNameServer newCollector}
   \<and> set (Describe newCollector [])
       \<subset> {dsc. \<exists>fl upstream now now' c out.
                  fst (Collect newCollector fl upstream now now' c []) = Inr out
                  \<and> dsc \<in> desc ` set out}"
proof -
  let ?emitted = "{dsc. \<exists>fl upstream now now' c out.
              fst (Collect newCollector fl upstream now now' c []) = Inr out
              \<and> dsc \<in> desc ` set out}"
  let ?all = "{domainAutoRenew newCollector, domainDNSSECKeyCount newCollector,
          domainExpiry newCollector, domainNameServer newCollector}"
  have described: "Describe newCollector [] =
      [domainAutoRenew newCollector, domainExpiry newCollector, domainNameServer newCollector]"
    by (simp add: Describe_def)
  have missing: "domainDNSSECKeyCount newCollector \<notin> set (Describe newCollector [])"
    unfolding described using descs_distinct by auto
  have sends: "\<exists>out. Collect newCollector fl upstream now now' c ch = (Inr out, c', posted)
      \<and> (\<exists>m \<in> set out. desc m = domainDNSSECKeyCount newCollector
            \<and> labelValues m = [DomainName d])"
    if g: "getDomains fl upstream now now' c = (listDomainsResp, c', posted)"
      and d: "d \<in> set (DomainList (Return listDomainsResp))"
      and ok: "DomainInfo.Status d = ''OK''"
    for fl upstream now now' c ch listDomainsResp c' posted d
  proof -
    from ok have "\<exists>m \<in> set (domainSamples d). desc m = domainDNSSECKeyCount newCollector
        \<and> labelValues m = [DomainName d]"
      by (simp add: domainSamples_def)
    with d have "\<exists>m \<in> set (ch @ concat (map domainSamples (DomainList (Return listDomainsResp)))).
        desc m = domainDNSSECKeyCount newCollector \<and> labelValues m = [DomainName d]"
      by auto
    then obtain m where "m \<in> set (ch @ concat (map domainSamples (DomainList (Return listDomainsResp))))"
      and "desc m = domainDNSSECKeyCount newCollector" and "labelValues m = [DomainName d]"
      by (elim bexE conjE)
    then show ?thesis
      unfolding Collect_getDomains [OF g, of ch] by (intro exI conjI bexI) (rule refl)
  qed
  have samples: "desc m \<in> ?all" if "m \<in> set (domainSamples d)" for m d
    using that by (cases "DomainInfo.Status d = ''OK''") (auto simp: domainSamples_def)
  have "?emitted \<subseteq> ?all"
  proof
    fix dsc
    assume "dsc \<in> ?emitted"
    then have "\<exists>fl upstream now now' c out.
        fst (Collect newCollector fl upstream now now' c []) = Inr out \<and> dsc \<in> desc ` set out"
      by (rule CollectD)
    then obtain fl upstream now now' c out
      where out: "fst (Collect newCollector fl upstream now now' c []) = Inr out"
        and dsc: "dsc \<in> desc ` set out"
      by (elim exE conjE)
    obtain r c' posted where "getDomains fl upstream now now' c = (r, c', posted)"
      by (rule prod_cases3)
    from Collect_getDomains [OF this, of "[]"] out
    have "out = concat (map domainSamples (DomainList (Return r)))"
      by simp
    with dsc obtain m d where "dsc = desc m" and "m \<in> set (domainSamples d)"
      by auto
    with samples [of m d] show "dsc \<in> ?all"
      by (simp only:)
  qed
  moreover have "?all \<subseteq> ?emitted"
  proof
    fix dsc
    assume "dsc \<in> ?all"
    moreover have "?all \<subseteq> desc ` set (concat (map domainSamples (DomainList (Return sampleResponse))))"
      by (simp add: sampleResponse_def domainSamples_def exampleDomain_def)
    ultimately have "dsc \<in> desc ` set (concat (map domainSamples (DomainList (Return sampleResponse))))"
      by (rule rev_subsetD)
    moreover have "fst (Collect newCollector sampleFlags upstreamSample 1000 1002 initCache [])
        = Inr (concat (map domainSamples (DomainList (Return sampleResponse))))"
      by (simp add: Collect_getDomains [OF getDomains_sample])
    ultimately have "\<exists>fl upstream now now' c out.
        fst (Collect newCollector fl upstream now now' c []) = Inr out \<and> dsc \<in> desc ` set out"
      by (intro exI conjI)
    then show "dsc \<in> ?emitted"
      by (rule CollectI)
  qed
  ultimately have emitted: "?emitted = ?all" ..
  have "set (Describe newCollector []) \<subset> ?all"
    unfolding described using descs_distinct by auto
  with emitted have proper: "set (Describe newCollector []) \<subset> ?emitted"
    by (simp only:)
  show ?thesis
  proof (intro conjI)
    show "Describe newCollector [] =
        [domainAutoRenew newCollector, domainExpiry newCollector, domainNameServer newCollector]"
      by (fact described)
    show "domainDNSSECKeyCount newCollector \<notin> set (Describe newCollector [])"
      by (fact missing)
    show "\<forall>fl upstream now now' c ch listDomainsResp c' posted d.
         getDomains fl upstream now now' c = (listDomainsResp, c', posted) \<longrightarrow>
         d \<in> set (DomainList (Return listDomainsResp)) \<longrightarrow> DomainInfo.Status d = ''OK'' \<longrightarrow>
         (\<exists>out. Collect newCollector fl upstream now now' c ch = (Inr out, c', posted)
            \<and> (\<exists>m \<in> set out. desc m = domainDNSSECKeyCount newCollector
                  \<and> labelValues m = [DomainName d]))"
      by (intro allI impI) (rule sends)
    show "?emitted = ?all"
      by (fact emitted)
    show "set (Describe newCollector []) \<subset> ?emitted"
      by (fact proper)
  qed
qed

theorem Describe_omits_DNSSEC_key_count_witness:
  "domainDNSSECKeyCount newCollector \<notin> set (Describe newCollector [])
   \<and> (\<exists>out. Collect newCollector sampleFlags upstreamSample 1000 1002 initCache []
          = (Inr out, \<lparr>listDomainsResponse = sampleResponse, cacheExpires = 4602\<rparr>,
             [requestBytes sampleFlags])
        \<and> (\<exists>m \<in> set out. desc m = domainDNSSECKeyCount newCollector
              \<and> labelValues m = [''example.com'']))"
proof
  from Describe_omits_DNSSEC_key_count
  show "domainDNSSECKeyCount newCollector \<notin> set (Describe newCollector [])"
    by (elim conjE)
  have listed: "exampleDomain \<in> set (DomainList (Return sampleResponse))"
    by (simp add: sampleResponse_def)
  have ok: "DomainInfo.Status exampleDomain = ''OK''"
    by (simp add: exampleDomain_def)
  from Describe_omits_DNSSEC_key_count
  have "\<forall>fl upstream now now' c ch listDomainsResp c' posted d.
         getDomains fl upstream now now' c = (listDomainsResp, c', posted) \<longrightarrow>
         d \<in> set (DomainList (Return listDomainsResp)) \<longrightarrow> DomainInfo.Status d = ''OK'' \<longrightarrow>
         (\<exists>out. Collect newCollector fl upstream now now' c ch = (Inr out, c', posted)
            \<and> (\<exists>m \<in> set out. desc m = domainDNSSECKeyCount newCollector
                  \<and> labelValues m = [DomainName d]))"
    by (elim conjE)
  from this [rule_format, OF getDomains_sample listed ok, of "[]"]
  show "\<exists>out. Collect newCollector sampleFlags upstreamSample 1000 1002 initCache []
          = (Inr out, \<lparr>listDomainsResponse = sampleResponse, cacheExpires = 4602\<rparr>,
             [requestBytes sampleFlags])
        \<and> (\<exists>m \<in> set out. desc m = domainDNSSECKeyCount newCollector
              \<and> labelValues m = [''example.com''])"
    by (simp add: exampleDomain_def)
qed

end
